theory Spec2Isabelle
  imports Main
begin

section \<open>Values exchanged with the caller (types.ts)\<close>

text \<open>
  The status enum and the two interfaces of \<^verbatim>\<open>types.ts\<close>. Optional fields are
  \<open>option\<close>s; strings are lists of 8-bit characters.
\<close>

datatype Status =
  pending | filling_form | uploading_photos | awaiting_otp | submitting | completed | failed

datatype Timing = asap | within_2_weeks | within_1_month | within_3_months | flexible

record HiPagesJobStatus =
  jobId :: string
  status :: Status
  message :: string
  hipagesJobId :: "string option"
  hipagesJobUrl :: "string option"
  error :: "string option"

record Contact =
  name :: string
  email :: string
  phone :: string

record Photos =
  original :: "string option"
  visualization :: "string option"

record HiPagesJobRequest =
  categorySlug :: string
  categoryName :: string
  postcode :: string
  suburb :: "string option"
  description :: string
  propertyType :: string
  timing :: Timing
  contact :: Contact
  photos :: "Photos option"

section \<open>Exceptions and the program monad\<close>

text \<open>
  A thrown JavaScript value is either an \<^verbatim>\<open>Error\<close> object (with its message) or
  some other value. \<open>error_message\<close> is the expression
  \<^verbatim>\<open>error instanceof Error ? error.message : 'Unknown error'\<close> of the catch blocks.
\<close>

datatype js_error = Error string | Thrown string

definition error_message :: "js_error \<Rightarrow> string" where
  "error_message e = (case e of Error m \<Rightarrow> m | Thrown v \<Rightarrow> ''Unknown error'')"

text \<open>
  An asynchronous function is a state transformer that either returns a value
  (\<open>Inr\<close>, the promise resolves) or throws (\<open>Inl\<close>, the promise rejects).
  \<open>andThen\<close> is \<^verbatim>\<open>await\<close> followed by the rest of the body, \<open>tryCatch\<close> is
  \<^verbatim>\<open>try { } catch (error) { }\<close>, \<open>swallow\<close> is \<^verbatim>\<open>.catch(() => {})\<close> and
  \<^verbatim>\<open>try { } catch {}\<close>, \<open>tryFinally\<close> is \<^verbatim>\<open>try { } finally { }\<close> (a throwing
  finally block replaces the completion of the try block).
\<close>

type_synonym ('s, 'a) prog = "'s \<Rightarrow> (js_error + 'a) \<times> 's"

definition succeed :: "'a \<Rightarrow> ('s, 'a) prog" where
  "succeed x = (\<lambda>s. (Inr x, s))"

definition throw :: "js_error \<Rightarrow> ('s, 'a) prog" where
  "throw e = (\<lambda>s. (Inl e, s))"

definition andThen :: "('s, 'a) prog \<Rightarrow> ('a \<Rightarrow> ('s, 'b) prog) \<Rightarrow> ('s, 'b) prog" where
  "andThen m f = (\<lambda>s. case m s of (Inl e, s') \<Rightarrow> (Inl e, s') | (Inr x, s') \<Rightarrow> f x s')"

definition next_do :: "('s, 'a) prog \<Rightarrow> ('s, 'b) prog \<Rightarrow> ('s, 'b) prog" where
  "next_do m n = andThen m (\<lambda>_. n)"

definition tryCatch :: "('s, 'a) prog \<Rightarrow> (js_error \<Rightarrow> ('s, 'a) prog) \<Rightarrow> ('s, 'a) prog" where
  "tryCatch m h = (\<lambda>s. case m s of (Inl e, s') \<Rightarrow> h e s' | (Inr x, s') \<Rightarrow> (Inr x, s'))"

definition swallow :: "('s, unit) prog \<Rightarrow> ('s, unit) prog" where
  "swallow m = tryCatch m (\<lambda>e. succeed ())"

definition tryFinally :: "('s, 'a) prog \<Rightarrow> ('s, unit) prog \<Rightarrow> ('s, 'a) prog" where
  "tryFinally m fin =
     (\<lambda>s. case m s of (r, s') \<Rightarrow>
        (case fin s' of (Inl e, s'') \<Rightarrow> (Inl e, s'') | (Inr u, s'') \<Rightarrow> (r, s'')))"

text \<open>\<^verbatim>\<open>for (const x of xs) { body }\<close> with a body that has no break.\<close>

primrec forEach :: "'a list \<Rightarrow> ('a \<Rightarrow> ('s, unit) prog) \<Rightarrow> ('s, unit) prog" where
  "forEach [] body = succeed ()"
| "forEach (x # xs) body = next_do (body x) (forEach xs body)"

section \<open>The browser, the clock and the file system\<close>

text \<open>
  Puppeteer, the target website, the clock, the file system and Node's pure helpers
  are outside the repository. They are a parameter of the model: a record of
  capabilities over an arbitrary world \<open>'w\<close>. Every asynchronous capability may
  throw and may change the world; \<^verbatim>\<open>delay\<close> lets time pass (the world moves on)
  and never throws. The two calls of \<^verbatim>\<open>fs\<close> act on the files of the temporary
  directory (path to contents): each may throw (\<open>Some\<close> error) and leaves the files
  in whatever state the file system chooses, so a write may throw after it created
  the file and an unlink may throw with the file still there. Every theorem below
  holds for all such records, unless it says which ones it is about.
\<close>

datatype Browser = Browser nat
datatype Page = Page nat
datatype Element = Element nat

record 'w puppeteer =
  PUPPETEER_EXECUTABLE_PATH :: "string option"
  os_tmpdir :: string
  path_join :: "string \<Rightarrow> string \<Rightarrow> string"
  base64_decode :: "string \<Rightarrow> string"
  pp_now :: "'w \<Rightarrow> nat"
  pp_delay :: "nat \<Rightarrow> 'w \<Rightarrow> 'w"
  pp_launch :: "string option \<Rightarrow> 'w \<Rightarrow> (js_error + Browser) \<times> 'w"
  pp_newPage :: "Browser \<Rightarrow> 'w \<Rightarrow> (js_error + Page) \<times> 'w"
  pp_setViewport :: "Page \<Rightarrow> nat \<Rightarrow> nat \<Rightarrow> 'w \<Rightarrow> (js_error + unit) \<times> 'w"
  pp_setUserAgent :: "Page \<Rightarrow> string \<Rightarrow> 'w \<Rightarrow> (js_error + unit) \<times> 'w"
  pp_goto :: "Page \<Rightarrow> string \<Rightarrow> nat \<Rightarrow> 'w \<Rightarrow> (js_error + unit) \<times> 'w"
  pp_waitForSelector :: "Page \<Rightarrow> string \<Rightarrow> nat \<Rightarrow> 'w \<Rightarrow> (js_error + unit) \<times> 'w"
  pp_waitForNavigation :: "Page \<Rightarrow> nat \<Rightarrow> 'w \<Rightarrow> (js_error + unit) \<times> 'w"
  pp_query :: "Page \<Rightarrow> string \<Rightarrow> 'w \<Rightarrow> (js_error + Element option) \<times> 'w"
  pp_queryAll :: "Page \<Rightarrow> string \<Rightarrow> 'w \<Rightarrow> (js_error + Element list) \<times> 'w"
  pp_textContent :: "Page \<Rightarrow> Element \<Rightarrow> 'w \<Rightarrow> (js_error + string option) \<times> 'w"
  pp_type :: "Element \<Rightarrow> string \<Rightarrow> nat \<Rightarrow> 'w \<Rightarrow> (js_error + unit) \<times> 'w"
  pp_click :: "Element \<Rightarrow> nat \<Rightarrow> 'w \<Rightarrow> (js_error + unit) \<times> 'w"
  pp_press :: "Page \<Rightarrow> string \<Rightarrow> 'w \<Rightarrow> (js_error + unit) \<times> 'w"
  pp_uploadFile :: "Element \<Rightarrow> string list \<Rightarrow> 'w \<Rightarrow> (js_error + unit) \<times> 'w"
  pp_url :: "Page \<Rightarrow> 'w \<Rightarrow> (js_error + string) \<times> 'w"
  pp_content :: "Page \<Rightarrow> 'w \<Rightarrow> (js_error + string) \<times> 'w"
  pp_close :: "Browser \<Rightarrow> 'w \<Rightarrow> (js_error + unit) \<times> 'w"
  fs_writeFileSync ::
    "string \<Rightarrow> string \<Rightarrow> (string \<rightharpoonup> string) \<Rightarrow> js_error option \<times> (string \<rightharpoonup> string)"
  fs_unlinkSync :: "string \<Rightarrow> (string \<rightharpoonup> string) \<Rightarrow> js_error option \<times> (string \<rightharpoonup> string)"

text \<open>
  Every call of a capability is recorded, in order, so that "the browser was closed"
  and "no browser was touched" are statements about the run.
\<close>

datatype call =
    Launch "string option"
  | NewPage Browser
  | SetViewport Page nat nat
  | SetUserAgent Page string
  | Goto Page string nat
  | WaitForSelector Page string nat
  | WaitForNavigation Page nat
  | Query Page string
  | QueryAll Page string
  | TextContent Page Element
  | TypeText Element string nat
  | Click Element nat
  | Press Page string
  | UploadFile Element "string list"
  | Url Page
  | Content Page
  | Close Browser
  | Delay nat
  | WriteFile string
  | Unlink string

text \<open>
  What lies outside the module: the world, the record of calls, and the files of the
  temporary directory (path to contents).
\<close>

record 'w host =
  world :: 'w
  trace :: "call list"
  files :: "string \<rightharpoonup> string"

definition perform :: "call \<Rightarrow> ('w \<Rightarrow> (js_error + 'a) \<times> 'w) \<Rightarrow> ('w host, 'a) prog" where
  "perform c f =
     (\<lambda>h. case f (world h) of (r, w') \<Rightarrow> (r, h\<lparr>world := w', trace := trace h @ [c]\<rparr>))"

definition delay :: "'w puppeteer \<Rightarrow> nat \<Rightarrow> ('w host, unit) prog" where
  "delay P ms = perform (Delay ms) (\<lambda>w. (Inr (), pp_delay P ms w))"

definition launch :: "'w puppeteer \<Rightarrow> string option \<Rightarrow> ('w host, Browser) prog" where
  "launch P executablePath = perform (Launch executablePath) (pp_launch P executablePath)"

definition newPage :: "'w puppeteer \<Rightarrow> Browser \<Rightarrow> ('w host, Page) prog" where
  "newPage P b = perform (NewPage b) (pp_newPage P b)"

definition setViewport :: "'w puppeteer \<Rightarrow> Page \<Rightarrow> nat \<Rightarrow> nat \<Rightarrow> ('w host, unit) prog" where
  "setViewport P pg w h = perform (SetViewport pg w h) (pp_setViewport P pg w h)"

definition setUserAgent :: "'w puppeteer \<Rightarrow> Page \<Rightarrow> string \<Rightarrow> ('w host, unit) prog" where
  "setUserAgent P pg ua = perform (SetUserAgent pg ua) (pp_setUserAgent P pg ua)"

definition goto :: "'w puppeteer \<Rightarrow> Page \<Rightarrow> string \<Rightarrow> nat \<Rightarrow> ('w host, unit) prog" where
  "goto P pg u t = perform (Goto pg u t) (pp_goto P pg u t)"

definition waitForSelector :: "'w puppeteer \<Rightarrow> Page \<Rightarrow> string \<Rightarrow> nat \<Rightarrow> ('w host, unit) prog" where
  "waitForSelector P pg sel t = perform (WaitForSelector pg sel t) (pp_waitForSelector P pg sel t)"

definition waitForNavigation :: "'w puppeteer \<Rightarrow> Page \<Rightarrow> nat \<Rightarrow> ('w host, unit) prog" where
  "waitForNavigation P pg t = perform (WaitForNavigation pg t) (pp_waitForNavigation P pg t)"

definition query :: "'w puppeteer \<Rightarrow> Page \<Rightarrow> string \<Rightarrow> ('w host, Element option) prog" where
  "query P pg sel = perform (Query pg sel) (pp_query P pg sel)"

definition queryAll :: "'w puppeteer \<Rightarrow> Page \<Rightarrow> string \<Rightarrow> ('w host, Element list) prog" where
  "queryAll P pg sel = perform (QueryAll pg sel) (pp_queryAll P pg sel)"

definition textContent :: "'w puppeteer \<Rightarrow> Page \<Rightarrow> Element \<Rightarrow> ('w host, string option) prog" where
  "textContent P pg el = perform (TextContent pg el) (pp_textContent P pg el)"

definition typeText :: "'w puppeteer \<Rightarrow> Element \<Rightarrow> string \<Rightarrow> nat \<Rightarrow> ('w host, unit) prog" where
  "typeText P el t d = perform (TypeText el t d) (pp_type P el t d)"

definition click :: "'w puppeteer \<Rightarrow> Element \<Rightarrow> nat \<Rightarrow> ('w host, unit) prog" where
  "click P el n = perform (Click el n) (pp_click P el n)"

definition press :: "'w puppeteer \<Rightarrow> Page \<Rightarrow> string \<Rightarrow> ('w host, unit) prog" where
  "press P pg k = perform (Press pg k) (pp_press P pg k)"

definition uploadFile :: "'w puppeteer \<Rightarrow> Element \<Rightarrow> string list \<Rightarrow> ('w host, unit) prog" where
  "uploadFile P el paths = perform (UploadFile el paths) (pp_uploadFile P el paths)"

definition url :: "'w puppeteer \<Rightarrow> Page \<Rightarrow> ('w host, string) prog" where
  "url P pg = perform (Url pg) (pp_url P pg)"

definition content :: "'w puppeteer \<Rightarrow> Page \<Rightarrow> ('w host, string) prog" where
  "content P pg = perform (Content pg) (pp_content P pg)"

definition close :: "'w puppeteer \<Rightarrow> Browser \<Rightarrow> ('w host, unit) prog" where
  "close P b = perform (Close b) (pp_close P b)"

definition Date_now :: "'w puppeteer \<Rightarrow> ('w host, nat) prog" where
  "Date_now P = (\<lambda>h. (Inr (pp_now P (world h)), h))"

definition writeFileSync :: "'w puppeteer \<Rightarrow> string \<Rightarrow> string \<Rightarrow> ('w host, unit) prog" where
  "writeFileSync P path data =
     (\<lambda>h. case fs_writeFileSync P path data (files h) of
            (r, fs') \<Rightarrow>
              (case r of None \<Rightarrow> Inr () | Some e \<Rightarrow> Inl e,
               h\<lparr>trace := trace h @ [WriteFile path], files := fs'\<rparr>))"

definition unlinkSync :: "'w puppeteer \<Rightarrow> string \<Rightarrow> ('w host, unit) prog" where
  "unlinkSync P path =
     (\<lambda>h. case fs_unlinkSync P path (files h) of
            (r, fs') \<Rightarrow>
              (case r of None \<Rightarrow> Inr () | Some e \<Rightarrow> Inl e,
               h\<lparr>trace := trace h @ [Unlink path], files := fs'\<rparr>))"

text \<open>
  The file system on which nothing goes wrong: \<^verbatim>\<open>writeFileSync\<close> creates or
  replaces the file, \<^verbatim>\<open>unlinkSync\<close> removes an existing file and throws on a
  missing one.
\<close>

definition write_ok ::
  "string \<Rightarrow> string \<Rightarrow> (string \<rightharpoonup> string) \<Rightarrow> js_error option \<times> (string \<rightharpoonup> string)" where
  "write_ok path data fs = (None, fs(path \<mapsto> data))"

definition unlink_ok :: "string \<Rightarrow> (string \<rightharpoonup> string) \<Rightarrow> js_error option \<times> (string \<rightharpoonup> string)" where
  "unlink_ok path fs =
     (if path \<in> dom fs then (None, fs(path := None))
      else (Some (Error ''ENOENT: no such file or directory''), fs))"

definition reliable_fs :: "'w puppeteer \<Rightarrow> bool" where
  "reliable_fs P = (fs_writeFileSync P = write_ok \<and> fs_unlinkSync P = unlink_ok)"

section \<open>Strings and the regular expressions of the source\<close>

text \<open>
  \<^verbatim>\<open>a || b\<close> and \<^verbatim>\<open>if (a)\<close> on an optional string: \<^verbatim>\<open>undefined\<close> and the empty
  string are falsy.
\<close>

definition truthy :: "string option \<Rightarrow> bool" where
  "truthy v = (case v of None \<Rightarrow> False | Some t \<Rightarrow> t \<noteq> [])"

definition startsWith :: "string \<Rightarrow> string \<Rightarrow> bool" where
  "startsWith t p = (take (length p) t = p)"

fun includes_str :: "string \<Rightarrow> string \<Rightarrow> bool" where
  "includes_str [] p = (p = [])"
| "includes_str (c # cs) p = (startsWith (c # cs) p \<or> includes_str cs p)"

text \<open>
  Letter case. A character is a code unit below 256 (Latin-1). \<^verbatim>\<open>toLowerCase\<close>
  maps the capital letters of ASCII and those of Latin-1 (U+00C0 to U+00DE without
  the multiplication sign U+00D7) to the character 32 places further on, and leaves
  every other character as it is. \<open>upper_ascii\<close> is the canonical form under which
  the flag \<^verbatim>\<open>i\<close> of a regular expression compares a character with an ASCII
  letter of the pattern: a character outside ASCII is never mapped into ASCII.
\<close>

definition latin1_capitals :: string where
  "latin1_capitals =
     [CHR 0xC0, CHR 0xC1, CHR 0xC2, CHR 0xC3, CHR 0xC4, CHR 0xC5, CHR 0xC6, CHR 0xC7,
      CHR 0xC8, CHR 0xC9, CHR 0xCA, CHR 0xCB, CHR 0xCC, CHR 0xCD, CHR 0xCE, CHR 0xCF,
      CHR 0xD0, CHR 0xD1, CHR 0xD2, CHR 0xD3, CHR 0xD4, CHR 0xD5, CHR 0xD6,
      CHR 0xD8, CHR 0xD9, CHR 0xDA, CHR 0xDB, CHR 0xDC, CHR 0xDD, CHR 0xDE]"

definition latin1_smalls :: string where
  "latin1_smalls =
     [CHR 0xE0, CHR 0xE1, CHR 0xE2, CHR 0xE3, CHR 0xE4, CHR 0xE5, CHR 0xE6, CHR 0xE7,
      CHR 0xE8, CHR 0xE9, CHR 0xEA, CHR 0xEB, CHR 0xEC, CHR 0xED, CHR 0xEE, CHR 0xEF,
      CHR 0xF0, CHR 0xF1, CHR 0xF2, CHR 0xF3, CHR 0xF4, CHR 0xF5, CHR 0xF6,
      CHR 0xF8, CHR 0xF9, CHR 0xFA, CHR 0xFB, CHR 0xFC, CHR 0xFD, CHR 0xFE]"

definition lower_char :: "char \<Rightarrow> char" where
  "lower_char c =
     (case map_of (zip (''ABCDEFGHIJKLMNOPQRSTUVWXYZ'' @ latin1_capitals)
                       (''abcdefghijklmnopqrstuvwxyz'' @ latin1_smalls)) c of
        Some l \<Rightarrow> l
      | None \<Rightarrow> c)"

definition toLowerCase :: "string \<Rightarrow> string" where
  "toLowerCase t = map lower_char t"

definition upper_ascii :: "char \<Rightarrow> char" where
  "upper_ascii c =
     (case map_of (zip ''abcdefghijklmnopqrstuvwxyz'' ''ABCDEFGHIJKLMNOPQRSTUVWXYZ'') c of
        Some u \<Rightarrow> u
      | None \<Rightarrow> c)"

definition is_digit :: "char \<Rightarrow> bool" where
  "is_digit c = (let n = (of_char c :: nat) in 48 \<le> n \<and> n \<le> 57)"

definition is_word :: "char \<Rightarrow> bool" where
  "is_word c =
     (let n = (of_char c :: nat)
      in (48 \<le> n \<and> n \<le> 57) \<or> (65 \<le> n \<and> n \<le> 90) \<or> (97 \<le> n \<and> n \<le> 122) \<or> n = 95)"

definition is_space :: "char \<Rightarrow> bool" where
  "is_space c = (let n = (of_char c :: nat) in (9 \<le> n \<and> n \<le> 13) \<or> n = 32 \<or> n = 160)"

text \<open>
  The pieces the regular expressions are made of, each matching at the start of the
  input and returning the rest: a literal (exactly, or ignoring case as the flag
  \<^verbatim>\<open>i\<close> does), an optional character of a class, and \<^verbatim>\<open>(\d+)\<close>. \<open>first_match\<close>
  tries every start position from the left, as \<^verbatim>\<open>String.prototype.match\<close> does;
  the result is capture group 1.
\<close>

fun lit :: "string \<Rightarrow> string \<Rightarrow> string option" where
  "lit [] t = Some t"
| "lit (p # ps) [] = None"
| "lit (p # ps) (c # cs) = (if c = p then lit ps cs else None)"

fun lit_ci :: "string \<Rightarrow> string \<Rightarrow> string option" where
  "lit_ci [] t = Some t"
| "lit_ci (p # ps) [] = None"
| "lit_ci (p # ps) (c # cs) = (if upper_ascii c = upper_ascii p then lit_ci ps cs else None)"

definition opt_char :: "(char \<Rightarrow> bool) \<Rightarrow> string \<Rightarrow> string" where
  "opt_char cls t = (case t of [] \<Rightarrow> [] | c # cs \<Rightarrow> if cls c then cs else c # cs)"

definition digits1 :: "string \<Rightarrow> string option" where
  "digits1 t = (let d = takeWhile is_digit t in if d = [] then None else Some d)"

fun first_match :: "(string \<Rightarrow> 'a option) \<Rightarrow> string \<Rightarrow> 'a option" where
  "first_match f [] = f []"
| "first_match f (c # cs) = (case f (c # cs) of Some r \<Rightarrow> Some r | None \<Rightarrow> first_match f cs)"

text \<open>\<^verbatim>\<open>/job[_-]?id[=\/](\d+)/i\<close> at one position (line 194, on the URL).\<close>

definition job_id_url_at :: "string \<Rightarrow> string option" where
  "job_id_url_at t =
     (case lit_ci ''job'' t of None \<Rightarrow> None
      | Some r1 \<Rightarrow>
         (case lit_ci ''id'' (opt_char (\<lambda>c. c = CHR ''_'' \<or> c = CHR ''-'') r1) of None \<Rightarrow> None
          | Some r2 \<Rightarrow>
             (case r2 of [] \<Rightarrow> None
              | c # r3 \<Rightarrow> if c = CHR ''='' \<or> c = CHR ''/'' then digits1 r3 else None)))"

text \<open>\<^verbatim>\<open>/job[_-]?id["\s:]+(\d+)/i\<close> at one position (line 194, on the page content).\<close>

definition job_id_content_at :: "string \<Rightarrow> string option" where
  "job_id_content_at t =
     (case lit_ci ''job'' t of None \<Rightarrow> None
      | Some r1 \<Rightarrow>
         (case lit_ci ''id'' (opt_char (\<lambda>c. c = CHR ''_'' \<or> c = CHR ''-'') r1) of None \<Rightarrow> None
          | Some r2 \<Rightarrow>
             (let sep = takeWhile (\<lambda>c. c = CHR 0x22 \<or> is_space c \<or> c = CHR '':'') r2
              in if sep = [] then None else digits1 (drop (length sep) r2))))"

text \<open>\<^verbatim>\<open>/job\/(\d+)/\<close> at one position (line 541).\<close>

definition job_slash_at :: "string \<Rightarrow> string option" where
  "job_slash_at t = (case lit ''job/'' t of None \<Rightarrow> None | Some r \<Rightarrow> digits1 r)"

text \<open>\<^verbatim>\<open>.replace(/^data:image\/\w+;base64,/, '')\<close> (lines 317, 324, 688, 695).\<close>

definition strip_data_uri :: "string \<Rightarrow> string" where
  "strip_data_uri t =
     (case lit ''data:image/'' t of None \<Rightarrow> t
      | Some r \<Rightarrow>
         (let w = takeWhile is_word r
          in if w = [] then t
             else (case lit '';base64,'' (drop (length w) r) of None \<Rightarrow> t | Some rest \<Rightarrow> rest)))"

text \<open>A number inside a template literal: its decimal digits.\<close>

function show_nat :: "nat \<Rightarrow> string" where
  "show_nat n =
     (if n < 10 then [''0123456789'' ! n]
      else show_nat (n div 10) @ [''0123456789'' ! (n mod 10)])"
  by pat_completeness auto
termination
  by (relation "measure (\<lambda>n. n)") auto

section \<open>The session store and the update callback\<close>

text \<open>
  A stored session: the second implementation keeps \<^verbatim>\<open>{ browser, page, status }\<close>
  (line 381), the first one \<^verbatim>\<open>SessionData\<close> with \<^verbatim>\<open>jobData\<close> as well (lines 7-12).
  The field \<^verbatim>\<open>status\<close> of a session is \<open>session_status\<close> here.
\<close>

record Session =
  browser :: Browser
  page :: Page
  session_status :: HiPagesJobStatus

record SessionData = Session +
  jobData :: HiPagesJobRequest

text \<open>
  The state of the module: what lies outside, the map \<^verbatim>\<open>activeSessions\<close>, and the
  calls of the update callback so far. Each call is recorded with the status it
  delivered and with what \<^verbatim>\<open>getJobStatus(jobId)\<close> returns at that moment.
\<close>

record ('w, 'z) module_state =
  host :: "'w host"
  activeSessions :: "string \<rightharpoonup> 'z Session_scheme"
  updates :: "(HiPagesJobStatus \<times> HiPagesJobStatus option) list"

definition outside :: "('w host, 'a) prog \<Rightarrow> (('w, 'z) module_state, 'a) prog" where
  "outside m = (\<lambda>s. case m (host s) of (r, h') \<Rightarrow> (r, s\<lparr>host := h'\<rparr>))"

text \<open>\<^verbatim>\<open>getJobStatus\<close> (lines 236-239 and 586-588): the cached status, or null.\<close>

definition getJobStatus :: "('w, 'z) module_state \<Rightarrow> string \<Rightarrow> HiPagesJobStatus option" where
  "getJobStatus s jid = map_option session_status (activeSessions s jid)"

text \<open>
  A call \<^verbatim>\<open>onStatusUpdate(st)\<close>. The callback is the caller's: \<open>cb st\<close> says whether
  it throws on that status. The console output of the module is not modelled.
\<close>

definition onStatusUpdate ::
  "(HiPagesJobStatus \<Rightarrow> js_error option) \<Rightarrow> string \<Rightarrow> HiPagesJobStatus \<Rightarrow>
   (('w, 'z) module_state, unit) prog" where
  "onStatusUpdate cb jid st =
     (\<lambda>s. let s' = s\<lparr>updates := updates s @ [(st, getJobStatus s jid)]\<rparr>
          in case cb st of None \<Rightarrow> (Inr (), s') | Some e \<Rightarrow> (Inl e, s'))"

definition sessions_set ::
  "string \<Rightarrow> 'z Session_scheme \<Rightarrow> (('w, 'z) module_state, unit) prog" where
  "sessions_set jid v = (\<lambda>s. (Inr (), s\<lparr>activeSessions := (activeSessions s)(jid \<mapsto> v)\<rparr>))"

definition sessions_delete :: "string \<Rightarrow> (('w, 'z) module_state, unit) prog" where
  "sessions_delete jid = (\<lambda>s. (Inr (), s\<lparr>activeSessions := (activeSessions s)(jid := None)\<rparr>))"

text \<open>An object literal \<^verbatim>\<open>{ jobId, status, message }\<close>: the optional fields are absent.\<close>

definition progress :: "string \<Rightarrow> Status \<Rightarrow> string \<Rightarrow> HiPagesJobStatus" where
  "progress jid st msg =
     \<lparr>jobId = jid, status = st, message = msg,
      hipagesJobId = None, hipagesJobUrl = None, error = None\<rparr>"

text \<open>
  A try block that assigns a local variable (null before) from the result of its
  first part \<open>m\<close> and goes on with \<open>f\<close>: a throw carries the value the variable has at
  that moment, for the catch block to read (\<^verbatim>\<open>let browser: Browser | null = null\<close>,
  lines 25 and 415).
\<close>

definition try_assigning ::
  "('s, 'b) prog \<Rightarrow> ('b \<Rightarrow> ('s, 'a) prog) \<Rightarrow> 's \<Rightarrow> ((js_error \<times> 'b option) + 'a) \<times> 's" where
  "try_assigning m f =
     (\<lambda>s. case m s of
        (Inl e, s1) \<Rightarrow> (Inl (e, None), s1)
      | (Inr b, s1) \<Rightarrow>
          (case f b s1 of (Inl e, s2) \<Rightarrow> (Inl (e, Some b), s2) | (Inr x, s2) \<Rightarrow> (Inr x, s2)))"

definition catching ::
  "('s \<Rightarrow> ((js_error \<times> 'b option) + 'a) \<times> 's) \<Rightarrow> ('b option \<Rightarrow> js_error \<Rightarrow> ('s, 'a) prog) \<Rightarrow>
   ('s, 'a) prog" where
  "catching t h = (\<lambda>s. case t s of (Inl (e, v), s') \<Rightarrow> h v e s' | (Inr x, s') \<Rightarrow> (Inr x, s'))"

text \<open>
  A local array that a try block pushes to and its finally block reads
  (\<^verbatim>\<open>tempFiles\<close>, \<^verbatim>\<open>filesToUpload\<close>): the block runs on the state paired with the
  array.
\<close>

definition with_local :: "'l \<Rightarrow> ('s \<times> 'l, 'a) prog \<Rightarrow> ('s, 'a) prog" where
  "with_local l0 m = (\<lambda>s. case m (s, l0) of (r, (s', l)) \<Rightarrow> (r, s'))"

definition on_outer :: "('s, 'a) prog \<Rightarrow> ('s \<times> 'l, 'a) prog" where
  "on_outer m = (\<lambda>(s, l). case m s of (r, s') \<Rightarrow> (r, (s', l)))"

definition get_local :: "('s \<times> 'l, 'l) prog" where
  "get_local = (\<lambda>(s, l). (Inr l, (s, l)))"

definition push_local :: "'x \<Rightarrow> ('s \<times> 'x list, unit) prog" where
  "push_local x = (\<lambda>(s, l). (Inr (), (s, l @ [x])))"

section \<open>The first implementation (hipages-automation.ts, lines 1-367)\<close>

subsection \<open>Stage helpers\<close>

definition fillCategory1 :: "'w puppeteer \<Rightarrow> Page \<Rightarrow> string \<Rightarrow> ('w host, unit) prog" where
  \<open>fillCategory1 P pg category =
     andThen (query P pg ''input[type="search"], input[placeholder*="search"], input[placeholder*="trade"]'')
       (\<lambda>searchInput.
     next_do
       (case searchInput of
          None \<Rightarrow> succeed ()
        | Some el \<Rightarrow>
            next_do (typeText P el category 50)
           (next_do (delay P 1000)
           (andThen (query P pg ''[role="option"], .suggestion, .autocomplete-item'')
              (\<lambda>suggestion.
                 case suggestion of
                   Some sg \<Rightarrow> click P sg 1
                 | None \<Rightarrow> press P pg ''Enter''))))
       (delay P 500))\<close>

definition fillLocation1 :: "'w puppeteer \<Rightarrow> Page \<Rightarrow> string \<Rightarrow> ('w host, unit) prog" where
  \<open>fillLocation1 P pg code =
     andThen (query P pg ''input[placeholder*="postcode"], input[placeholder*="suburb"], input[name*="location"]'')
       (\<lambda>locationInput.
     next_do
       (case locationInput of
          None \<Rightarrow> succeed ()
        | Some el \<Rightarrow>
            next_do (typeText P el code 50)
           (next_do (delay P 1000)
           (andThen (query P pg ''[role="option"], .suggestion, .autocomplete-item'')
              (\<lambda>suggestion.
                 case suggestion of
                   Some sg \<Rightarrow> click P sg 1
                 | None \<Rightarrow> succeed ()))))
       (delay P 500))\<close>

definition clickGetQuotes1 :: "'w puppeteer \<Rightarrow> Page \<Rightarrow> ('w host, unit) prog" where
  \<open>clickGetQuotes1 P pg =
     andThen (query P pg ''button[type="submit"], button:has-text("Get Quotes"), button:has-text("Continue")'')
       (\<lambda>button.
          case button of
            None \<Rightarrow> succeed ()
          | Some el \<Rightarrow> next_do (click P el 1) (swallow (waitForNavigation P pg 10000)))\<close>

definition answerFormQuestions1 :: "'w puppeteer \<Rightarrow> Page \<Rightarrow> HiPagesJobRequest \<Rightarrow> ('w host, unit) prog" where
  \<open>answerFormQuestions1 P pg job =
     next_do (delay P 1000)
    (andThen (queryAll P pg ''input[type="radio"]'') (\<lambda>radioButtons.
     next_do (forEach (take 5 radioButtons)
                (\<lambda>radio. swallow (next_do (click P radio 1) (delay P 300))))
    (andThen (queryAll P pg ''button:has-text("Continue"), button:has-text("Next")'') (\<lambda>continueButtons.
     forEach continueButtons (\<lambda>btn. swallow (next_do (click P btn 1) (delay P 1000)))))))\<close>

definition fillDescription1 :: "'w puppeteer \<Rightarrow> Page \<Rightarrow> string \<Rightarrow> ('w host, unit) prog" where
  \<open>fillDescription1 P pg descr =
     andThen (query P pg ''textarea, input[type="text"][name*="description"]'') (\<lambda>textarea.
     next_do (case textarea of Some el \<Rightarrow> typeText P el descr 20 | None \<Rightarrow> succeed ())
             (delay P 500))\<close>

text \<open>
  \<^verbatim>\<open>uploadPhotos\<close> (lines 305-338). The try block writes a temporary file only for a
  payload that starts with \<^verbatim>\<open>data:\<close>; the finally block unlinks every path of
  \<^verbatim>\<open>tempFiles\<close>, ignoring errors.
\<close>

definition uploadPhotos1 :: "'w puppeteer \<Rightarrow> Page \<Rightarrow> Photos \<Rightarrow> ('w host, unit) prog" where
  \<open>uploadPhotos1 P pg ph =
     andThen (query P pg ''input[type="file"]'') (\<lambda>fileInput.
       case fileInput of
         None \<Rightarrow> succeed ()
       | Some fi \<Rightarrow>
           with_local []
             (tryFinally
                (next_do
                   (case original ph of
                      None \<Rightarrow> succeed ()
                    | Some d \<Rightarrow>
                        if d \<noteq> [] \<and> startsWith d ''data:'' then
                          andThen (on_outer (Date_now P)) (\<lambda>t.
                            let tempPath = path_join P (os_tmpdir P) (''hipages_original_'' @ show_nat t @ ''.jpg'');
                                base64Data = strip_data_uri d
                            in next_do (on_outer (writeFileSync P tempPath (base64_decode P base64Data)))
                                       (push_local tempPath))
                        else succeed ())
                (next_do
                   (case visualization ph of
                      None \<Rightarrow> succeed ()
                    | Some d \<Rightarrow>
                        if d \<noteq> [] \<and> startsWith d ''data:'' then
                          andThen (on_outer (Date_now P)) (\<lambda>t.
                            let tempPath = path_join P (os_tmpdir P) (''hipages_viz_'' @ show_nat t @ ''.jpg'');
                                base64Data = strip_data_uri d
                            in next_do (on_outer (writeFileSync P tempPath (base64_decode P base64Data)))
                                       (push_local tempPath))
                        else succeed ())
                (andThen get_local (\<lambda>tempFiles.
                   if tempFiles \<noteq> [] then
                     next_do (on_outer (uploadFile P fi tempFiles)) (on_outer (delay P 2000))
                   else succeed ()))))
                (andThen get_local (\<lambda>tempFiles.
                   on_outer (forEach tempFiles (\<lambda>f. swallow (unlinkSync P f)))))))\<close>

definition fillContactDetails1 :: "'w puppeteer \<Rightarrow> Page \<Rightarrow> Contact \<Rightarrow> ('w host, unit) prog" where
  \<open>fillContactDetails1 P pg c =
     andThen (query P pg ''input[name*="name"], input[placeholder*="name"]'') (\<lambda>nameInput.
     next_do (case nameInput of Some el \<Rightarrow> typeText P el (name c) 30 | None \<Rightarrow> succeed ())
    (andThen (query P pg ''input[type="email"], input[name*="email"]'') (\<lambda>emailInput.
     next_do (case emailInput of Some el \<Rightarrow> typeText P el (email c) 30 | None \<Rightarrow> succeed ())
    (andThen (query P pg ''input[type="tel"], input[name*="phone"], input[name*="mobile"]'') (\<lambda>phoneInput.
     next_do (case phoneInput of Some el \<Rightarrow> typeText P el (phone c) 30 | None \<Rightarrow> succeed ())
    (next_do (delay P 500)
    (andThen (query P pg ''button[type="submit"], button:has-text("Submit"), button:has-text("Get Quotes")'')
       (\<lambda>submitButton.
     next_do (case submitButton of Some el \<Rightarrow> click P el 1 | None \<Rightarrow> succeed ())
             (delay P 3000)))))))))\<close>

subsection \<open>startJobPosting, submitOtp, cancelSession\<close>

text \<open>
  \<^verbatim>\<open>process.env.PUPPETEER_EXECUTABLE_PATH || undefined\<close> (lines 34 and 433), and
  the test \<^verbatim>\<open>jobData.photos?.original || jobData.photos?.visualization\<close>
  (lines 111 and 483).
\<close>

definition executablePath :: "'w puppeteer \<Rightarrow> string option" where
  "executablePath P =
     (if truthy (PUPPETEER_EXECUTABLE_PATH P) then PUPPETEER_EXECUTABLE_PATH P else None)"

definition has_photos :: "HiPagesJobRequest \<Rightarrow> bool" where
  "has_photos job =
     (case photos job of None \<Rightarrow> False
      | Some ph \<Rightarrow> truthy (original ph) \<or> truthy (visualization ph))"

text \<open>The try block after \<^verbatim>\<open>browser\<close> is assigned (lines 49-142).\<close>

definition startJobPosting1_stages ::
  "'w puppeteer \<Rightarrow> (HiPagesJobStatus \<Rightarrow> js_error option) \<Rightarrow> string \<Rightarrow> HiPagesJobRequest \<Rightarrow>
   Browser \<Rightarrow> (('w, \<lparr>jobData :: HiPagesJobRequest\<rparr>) module_state, unit) prog" where
  "startJobPosting1_stages P cb jid job b =
     andThen (outside (newPage P b)) (\<lambda>pg.
     next_do (outside (setViewport P pg 1280 800))
    (next_do (sessions_set jid
                \<lparr>browser = b, page = pg,
                 session_status = progress jid filling_form ''Starting...'', jobData = job\<rparr>)
    (next_do (onStatusUpdate cb jid (progress jid filling_form ''Navigating to HiPages...''))
    (next_do (outside (goto P pg ''https://hipages.com.au/get-quotes'' 30000))
    (next_do (onStatusUpdate cb jid (progress jid filling_form ''Selecting category...''))
    (next_do (outside (fillCategory1 P pg (categoryName job)))
    (next_do (onStatusUpdate cb jid (progress jid filling_form ''Entering location...''))
    (next_do (outside (fillLocation1 P pg (postcode job)))
    (next_do (onStatusUpdate cb jid (progress jid filling_form ''Getting quotes form...''))
    (next_do (outside (clickGetQuotes1 P pg))
    (next_do (outside (delay P 2000))
    (next_do (onStatusUpdate cb jid (progress jid filling_form ''Answering questions...''))
    (next_do (outside (answerFormQuestions1 P pg job))
    (next_do (onStatusUpdate cb jid (progress jid filling_form ''Adding job description...''))
    (next_do (outside (fillDescription1 P pg (description job)))
    (next_do (case photos job of
                Some ph \<Rightarrow>
                  if has_photos job then
                    next_do (onStatusUpdate cb jid (progress jid uploading_photos ''Uploading photos...''))
                            (outside (uploadPhotos1 P pg ph))
                  else succeed ()
              | None \<Rightarrow> succeed ())
    (next_do (onStatusUpdate cb jid (progress jid filling_form ''Entering contact details...''))
    (next_do (outside (fillContactDetails1 P pg (contact job)))
    (next_do (onStatusUpdate cb jid
                (progress jid awaiting_otp ''Please enter the verification code sent to your phone''))
       (\<lambda>s. case activeSessions s jid of
               None \<Rightarrow> (Inr (), s)
             | Some session \<Rightarrow>
                 (Inr (), s\<lparr>activeSessions := (activeSessions s)(jid \<mapsto>
                    session\<lparr>session_status :=
                      progress jid awaiting_otp ''Waiting for OTP verification''\<rparr>)\<rparr>))
     )))))))))))))))))))"

text \<open>The whole try block (lines 27-142) and the catch block (lines 144-158).\<close>

definition startJobPosting1_try ::
  "'w puppeteer \<Rightarrow> (HiPagesJobStatus \<Rightarrow> js_error option) \<Rightarrow> string \<Rightarrow> HiPagesJobRequest \<Rightarrow>
   ('w, \<lparr>jobData :: HiPagesJobRequest\<rparr>) module_state \<Rightarrow>
   ((js_error \<times> Browser option) + unit) \<times> ('w, \<lparr>jobData :: HiPagesJobRequest\<rparr>) module_state" where
  "startJobPosting1_try P cb jid job =
     try_assigning
       (next_do (onStatusUpdate cb jid (progress jid pending ''Launching browser...''))
                (outside (launch P (executablePath P))))
       (startJobPosting1_stages P cb jid job)"

definition startJobPosting1_catch ::
  "'w puppeteer \<Rightarrow> (HiPagesJobStatus \<Rightarrow> js_error option) \<Rightarrow> string \<Rightarrow>
   Browser option \<Rightarrow> js_error \<Rightarrow> (('w, 'z) module_state, unit) prog" where
  "startJobPosting1_catch P cb jid bo e =
     next_do (case bo of Some b \<Rightarrow> outside (swallow (close P b)) | None \<Rightarrow> succeed ())
    (next_do (sessions_delete jid)
    (onStatusUpdate cb jid
       \<lparr>jobId = jid, status = failed, message = ''Job posting failed'',
        hipagesJobId = None, hipagesJobUrl = None, error = Some (error_message e)\<rparr>))"

definition startJobPosting1 ::
  "'w puppeteer \<Rightarrow> (HiPagesJobStatus \<Rightarrow> js_error option) \<Rightarrow> string \<Rightarrow> HiPagesJobRequest \<Rightarrow>
   (('w, \<lparr>jobData :: HiPagesJobRequest\<rparr>) module_state, unit) prog" where
  "startJobPosting1 P cb jid job =
     catching (startJobPosting1_try P cb jid job) (startJobPosting1_catch P cb jid)"

text \<open>
  \<^verbatim>\<open>submitOtp\<close> (lines 161-226): the try block, the catch block (where
  \<^verbatim>\<open>session.browser\<close> is an object, hence truthy), and the function.
\<close>

definition extract1 :: "string \<Rightarrow> string \<Rightarrow> string option" where
  "extract1 currentUrl pageContent =
     (case first_match job_id_url_at currentUrl of
        Some m \<Rightarrow> Some m
      | None \<Rightarrow> first_match job_id_content_at pageContent)"

definition submitOtp1_try ::
  "'w puppeteer \<Rightarrow> string \<Rightarrow> string \<Rightarrow> 'z Session_scheme \<Rightarrow>
   (('w, 'z) module_state, HiPagesJobStatus) prog" where
  \<open>submitOtp1_try P jid otp session =
     andThen (outside (query P (page session)
                ''input[type="text"][maxlength="6"], input[name="otp"], input[placeholder*="code"]''))
       (\<lambda>otpInput.
     next_do (case otpInput of
                Some el \<Rightarrow> outside (typeText P el otp 100)
              | None \<Rightarrow> succeed ())
    (andThen (outside (query P (page session)
                ''button[type="submit"], button:has-text("Verify"), button:has-text("Submit")''))
       (\<lambda>verifyButton.
     next_do (case verifyButton of
                Some el \<Rightarrow> outside (click P el 1)
              | None \<Rightarrow> succeed ())
    (next_do (outside (delay P 3000))
    (andThen (outside (url P (page session))) (\<lambda>currentUrl.
     andThen (outside (content P (page session))) (\<lambda>pageContent.
     let jobIdMatch = extract1 currentUrl pageContent
     in next_do (outside (close P (browser session)))
       (next_do (sessions_delete jid)
       (succeed
          \<lparr>jobId = jid, status = completed, message = ''Job posted successfully!'',
           hipagesJobId = jobIdMatch,
           hipagesJobUrl = map_option (\<lambda>i. ''https://hipages.com.au/jobs/'' @ i) jobIdMatch,
           error = None\<rparr>)))))))))\<close>

definition submitOtp1_catch ::
  "'w puppeteer \<Rightarrow> string \<Rightarrow> 'z Session_scheme \<Rightarrow> js_error \<Rightarrow>
   (('w, 'z) module_state, HiPagesJobStatus) prog" where
  "submitOtp1_catch P jid session e =
     next_do (outside (swallow (close P (browser session))))
    (next_do (sessions_delete jid)
    (succeed
       \<lparr>jobId = jid, status = failed, message = ''Failed to verify OTP'',
        hipagesJobId = None, hipagesJobUrl = None, error = Some (error_message e)\<rparr>))"

definition submitOtp1 ::
  "'w puppeteer \<Rightarrow> string \<Rightarrow> string \<Rightarrow> (('w, 'z) module_state, HiPagesJobStatus) prog" where
  "submitOtp1 P jid otp =
     (\<lambda>s. case activeSessions s jid of
        None \<Rightarrow>
          (Inr \<lparr>jobId = jid, status = failed, message = ''Session not found'',
                hipagesJobId = None, hipagesJobUrl = None,
                error = Some ''No active session for this job''\<rparr>, s)
      | Some session \<Rightarrow>
          tryCatch (submitOtp1_try P jid otp session) (submitOtp1_catch P jid session) s)"

text \<open>\<^verbatim>\<open>cancelSession\<close> (lines 228-234).\<close>

definition cancelSession1 :: "'w puppeteer \<Rightarrow> string \<Rightarrow> (('w, 'z) module_state, unit) prog" where
  "cancelSession1 P jid =
     (\<lambda>s. case activeSessions s jid of
        Some session \<Rightarrow>
          next_do (outside (swallow (close P (browser session)))) (sessions_delete jid) s
      | None \<Rightarrow> (Inr (), s))"

section \<open>The second implementation (hipages-automation.ts, lines 369-742)\<close>

subsection \<open>Stage helpers\<close>

text \<open>
  \<^verbatim>\<open>findAndClickButton\<close> (lines 393-405): for each text, all candidate controls are
  queried again and the first one whose lower-cased text content includes the text
  is clicked. \<open>find_in_buttons\<close> is the inner loop.
\<close>

primrec find_in_buttons ::
  "'w puppeteer \<Rightarrow> Page \<Rightarrow> string \<Rightarrow> Element list \<Rightarrow> ('w host, bool) prog" where
  "find_in_buttons P pg t [] = succeed False"
| "find_in_buttons P pg t (button # rest) =
     andThen (textContent P pg button) (\<lambda>tc.
       let buttonText = (case tc of None \<Rightarrow> [] | Some c \<Rightarrow> toLowerCase c)
       in if includes_str buttonText (toLowerCase t)
          then next_do (click P button 1) (succeed True)
          else find_in_buttons P pg t rest)"

primrec findAndClickButton :: "'w puppeteer \<Rightarrow> Page \<Rightarrow> string list \<Rightarrow> ('w host, bool) prog" where
  \<open>findAndClickButton P pg [] = succeed False\<close>
| \<open>findAndClickButton P pg (t # texts) =
     andThen (queryAll P pg ''button, input[type="submit"], a'') (\<lambda>buttons.
     andThen (find_in_buttons P pg t buttons) (\<lambda>clicked.
       if clicked then succeed True else findAndClickButton P pg texts))\<close>

definition fillCategory2 :: "'w puppeteer \<Rightarrow> Page \<Rightarrow> string \<Rightarrow> ('w host, unit) prog" where
  \<open>fillCategory2 P pg category =
     andThen (queryAll P pg ''input'') (\<lambda>inputs.
       case inputs of
         [] \<Rightarrow> succeed ()
       | categoryInput # others \<Rightarrow>
           next_do (click P categoryInput 1)
          (next_do (delay P 300)
          (next_do (typeText P categoryInput category 100)
          (next_do (delay P 1500)
          (andThen (query P pg
              ''[role="option"], [role="listbox"] li, ul[class*="suggestion"] li, ul[class*="autocomplete"] li'')
             (\<lambda>suggestion.
           next_do (case suggestion of
                      Some sg \<Rightarrow> click P sg 1
                    | None \<Rightarrow> press P pg ''Enter'')
                   (delay P 500)))))))\<close>

definition fillLocation2 :: "'w puppeteer \<Rightarrow> Page \<Rightarrow> string \<Rightarrow> ('w host, unit) prog" where
  \<open>fillLocation2 P pg code =
     andThen (query P pg
        ''input[placeholder*="postcode"], input[placeholder*="suburb"], input[placeholder*="location"], input[name*="location"], input[name*="postcode"]'')
       (\<lambda>locationInput.
       case locationInput of
         None \<Rightarrow> succeed ()
       | Some el \<Rightarrow>
           next_do (click P el 1)
          (next_do (delay P 300)
          (next_do (typeText P el code 100)
          (next_do (delay P 1500)
          (andThen (query P pg ''[role="option"], [role="listbox"] li, ul[class*="suggestion"] li'')
             (\<lambda>suggestion.
           next_do (case suggestion of
                      Some sg \<Rightarrow> click P sg 1
                    | None \<Rightarrow> press P pg ''Enter'')
                   (delay P 500)))))))\<close>

definition clickGetQuotes2 :: "'w puppeteer \<Rightarrow> Page \<Rightarrow> ('w host, unit) prog" where
  "clickGetQuotes2 P pg =
     andThen (findAndClickButton P pg [''get quotes'', ''get quote'', ''continue'', ''next'', ''go''])
       (\<lambda>clicked.
          if clicked then swallow (waitForNavigation P pg 10000) else succeed ())"

text \<open>
  \<^verbatim>\<open>answerFormQuestions\<close> (lines 639-660). \<open>answer_loop P pg n\<close> is the loop
  \<^verbatim>\<open>for (let i = 0; i < 10; i++)\<close> with \<open>n = 10 - i\<close> iterations left; each
  \<^verbatim>\<open>break\<close> ends it.
\<close>

primrec answer_loop :: "'w puppeteer \<Rightarrow> Page \<Rightarrow> nat \<Rightarrow> ('w host, unit) prog" where
  \<open>answer_loop P pg 0 = succeed ()\<close>
| \<open>answer_loop P pg (Suc n) =
     andThen (query P pg ''textarea'') (\<lambda>textarea.
       case textarea of
         Some el \<Rightarrow> succeed ()
       | None \<Rightarrow>
           andThen (queryAll P pg ''input[type="radio"]:not(:checked)'') (\<lambda>radioButtons.
           next_do (case radioButtons of
                      r # others \<Rightarrow> next_do (click P r 1) (delay P 500)
                    | [] \<Rightarrow> succeed ())
          (andThen (findAndClickButton P pg [''next'', ''continue'']) (\<lambda>clicked.
             if clicked then next_do (delay P 1000) (answer_loop P pg n)
             else succeed ()))))\<close>

definition answerFormQuestions2 :: "'w puppeteer \<Rightarrow> Page \<Rightarrow> ('w host, unit) prog" where
  "answerFormQuestions2 P pg = next_do (delay P 1000) (answer_loop P pg 10)"

definition fillDescription2 :: "'w puppeteer \<Rightarrow> Page \<Rightarrow> string \<Rightarrow> ('w host, unit) prog" where
  "fillDescription2 P pg descr =
     andThen (query P pg ''textarea'') (\<lambda>textarea.
       case textarea of
         None \<Rightarrow> succeed ()
       | Some el \<Rightarrow>
           next_do (click P el 1)
          (next_do (typeText P el descr 20)
                   (delay P 500)))"

text \<open>
  \<^verbatim>\<open>uploadPhotos\<close> (lines 671-714). The try block writes a temporary file for every
  truthy payload; the finally block unlinks every path of \<^verbatim>\<open>filesToUpload\<close>,
  ignoring errors.
\<close>

definition uploadPhotos2 :: "'w puppeteer \<Rightarrow> Page \<Rightarrow> Photos \<Rightarrow> ('w host, unit) prog" where
  \<open>uploadPhotos2 P pg ph =
     andThen (query P pg ''input[type="file"]'') (\<lambda>fileInput.
       case fileInput of
         None \<Rightarrow> succeed ()
       | Some fi \<Rightarrow>
           with_local []
             (tryFinally
                (next_do
                   (case original ph of
                      None \<Rightarrow> succeed ()
                    | Some d \<Rightarrow>
                        if d \<noteq> [] then
                          andThen (on_outer (Date_now P)) (\<lambda>t.
                            let originalPath = path_join P (os_tmpdir P) (''hipages_original_'' @ show_nat t @ ''.jpg'');
                                base64Data = strip_data_uri d
                            in next_do (on_outer (writeFileSync P originalPath (base64_decode P base64Data)))
                                       (push_local originalPath))
                        else succeed ())
                (next_do
                   (case visualization ph of
                      None \<Rightarrow> succeed ()
                    | Some d \<Rightarrow>
                        if d \<noteq> [] then
                          andThen (on_outer (Date_now P)) (\<lambda>t.
                            let vizPath = path_join P (os_tmpdir P) (''hipages_viz_'' @ show_nat t @ ''.jpg'');
                                base64Data = strip_data_uri d
                            in next_do (on_outer (writeFileSync P vizPath (base64_decode P base64Data)))
                                       (push_local vizPath))
                        else succeed ())
                (andThen get_local (\<lambda>filesToUpload.
                   if filesToUpload \<noteq> [] then
                     next_do (on_outer (uploadFile P fi filesToUpload)) (on_outer (delay P 2000))
                   else succeed ()))))
                (andThen get_local (\<lambda>filesToUpload.
                   on_outer (forEach filesToUpload (\<lambda>f. swallow (unlinkSync P f)))))))\<close>

definition fillContactDetails2 :: "'w puppeteer \<Rightarrow> Page \<Rightarrow> Contact \<Rightarrow> ('w host, unit) prog" where
  \<open>fillContactDetails2 P pg c =
     andThen (query P pg ''input[name*="name"], input[placeholder*="name"], input[autocomplete="name"]'')
       (\<lambda>nameInput.
     next_do (case nameInput of
                Some el \<Rightarrow> next_do (click P el 3) (typeText P el (name c) 50)
              | None \<Rightarrow> succeed ())
    (andThen (query P pg ''input[type="email"], input[name*="email"], input[placeholder*="email"]'')
       (\<lambda>emailInput.
     next_do (case emailInput of
                Some el \<Rightarrow> next_do (click P el 3) (typeText P el (email c) 50)
              | None \<Rightarrow> succeed ())
    (andThen (query P pg
        ''input[type="tel"], input[name*="phone"], input[placeholder*="phone"], input[name*="mobile"]'')
       (\<lambda>phoneInput.
     next_do (case phoneInput of
                Some el \<Rightarrow> next_do (click P el 3) (typeText P el (phone c) 50)
              | None \<Rightarrow> succeed ())
    (next_do (delay P 500)
    (next_do (findAndClickButton P pg [''get quotes'', ''submit'', ''continue'', ''send''])
             (delay P 2000))))))))\<close>

subsection \<open>startJobPosting, submitOtp, cancelSession\<close>

text \<open>
  The closure \<^verbatim>\<open>updateStatus\<close> (lines 418-429). Its argument is a partial status;
  the calls give it \<^verbatim>\<open>status\<close> and \<^verbatim>\<open>message\<close>, or \<^verbatim>\<open>message\<close> alone, and
  \<open>merge\<close> is the object spread \<^verbatim>\<open>{ ...currentStatus, ...status }\<close>.
\<close>

record StatusPatch =
  patch_status :: "Status option"
  patch_message :: "string option"

definition merge :: "HiPagesJobStatus \<Rightarrow> StatusPatch \<Rightarrow> HiPagesJobStatus" where
  "merge cur p =
     cur\<lparr>status := (case patch_status p of Some v \<Rightarrow> v | None \<Rightarrow> status cur),
         message := (case patch_message p of Some v \<Rightarrow> v | None \<Rightarrow> message cur)\<rparr>"

definition updateStatus ::
  "(HiPagesJobStatus \<Rightarrow> js_error option) \<Rightarrow> string \<Rightarrow> StatusPatch \<Rightarrow>
   (('w, 'z) module_state, unit) prog" where
  "updateStatus cb jid p =
     (\<lambda>s. let currentStatus =
                (case activeSessions s jid of
                   Some session \<Rightarrow> session_status session
                 | None \<Rightarrow> progress jid pending ''Starting...'');
              newStatus = merge currentStatus p;
              s1 = (case activeSessions s jid of
                      Some session \<Rightarrow>
                        s\<lparr>activeSessions := (activeSessions s)(jid \<mapsto>
                             session\<lparr>session_status := newStatus\<rparr>)\<rparr>
                    | None \<Rightarrow> s)
          in onStatusUpdate cb jid newStatus s1)"

text \<open>The try block after \<^verbatim>\<open>browser\<close> is assigned (lines 448-491).\<close>

definition startJobPosting2_stages ::
  "'w puppeteer \<Rightarrow> (HiPagesJobStatus \<Rightarrow> js_error option) \<Rightarrow> string \<Rightarrow> HiPagesJobRequest \<Rightarrow>
   Browser \<Rightarrow> (('w, unit) module_state, unit) prog" where
  "startJobPosting2_stages P cb jid job b =
     andThen (outside (newPage P b)) (\<lambda>pg.
     next_do (outside (setViewport P pg 1280 800))
    (next_do (outside (setUserAgent P pg
       ''Mozilla/5.0 (Macintosh; Intel Mac OS X 10_15_7) AppleWebKit/537.36 (KHTML, like Gecko) Chrome/120.0.0.0 Safari/537.36''))
    (next_do (sessions_set jid
                \<lparr>browser = b, page = pg,
                 session_status = progress jid pending ''Browser launched''\<rparr>)
    (next_do (updateStatus cb jid
                \<lparr>patch_status = Some filling_form, patch_message = Some ''Navigating to HiPages...''\<rparr>)
    (next_do (outside (goto P pg ''https://www.hipages.com.au/get-quotes'' 30000))
    (next_do (outside (waitForSelector P pg ''input'' 10000))
    (next_do (updateStatus cb jid \<lparr>patch_status = None, patch_message = Some ''Filling category...''\<rparr>)
    (next_do (outside (fillCategory2 P pg (categoryName job)))
    (next_do (updateStatus cb jid \<lparr>patch_status = None, patch_message = Some ''Filling location...''\<rparr>)
    (next_do (outside (fillLocation2 P pg (postcode job)))
    (next_do (outside (clickGetQuotes2 P pg))
    (next_do (updateStatus cb jid \<lparr>patch_status = None, patch_message = Some ''Answering questions...''\<rparr>)
    (next_do (outside (answerFormQuestions2 P pg))
    (next_do (updateStatus cb jid
                \<lparr>patch_status = None, patch_message = Some ''Filling job description...''\<rparr>)
    (next_do (outside (fillDescription2 P pg (description job)))
    (next_do (case photos job of
                Some ph \<Rightarrow>
                  if has_photos job then
                    next_do (updateStatus cb jid
                               \<lparr>patch_status = Some uploading_photos,
                                patch_message = Some ''Uploading photos...''\<rparr>)
                            (outside (uploadPhotos2 P pg ph))
                  else succeed ()
              | None \<Rightarrow> succeed ())
    (next_do (updateStatus cb jid
                \<lparr>patch_status = None, patch_message = Some ''Filling contact details...''\<rparr>)
    (next_do (outside (fillContactDetails2 P pg (contact job)))
       (updateStatus cb jid
          \<lparr>patch_status = Some awaiting_otp,
           patch_message = Some (''Enter the code sent to '' @ phone (contact job))\<rparr>)
     ))))))))))))))))))"

text \<open>
  The whole try block (lines 417-491) and the catch block (lines 493-507), where
  \<^verbatim>\<open>await browser.close()\<close> stands unguarded.
\<close>

definition startJobPosting2_try ::
  "'w puppeteer \<Rightarrow> (HiPagesJobStatus \<Rightarrow> js_error option) \<Rightarrow> string \<Rightarrow> HiPagesJobRequest \<Rightarrow>
   ('w, unit) module_state \<Rightarrow> ((js_error \<times> Browser option) + unit) \<times> ('w, unit) module_state" where
  "startJobPosting2_try P cb jid job =
     try_assigning
       (next_do (updateStatus cb jid
                   \<lparr>patch_status = Some pending, patch_message = Some ''Launching browser...''\<rparr>)
                (outside (launch P (executablePath P))))
       (startJobPosting2_stages P cb jid job)"

definition startJobPosting2_catch ::
  "'w puppeteer \<Rightarrow> (HiPagesJobStatus \<Rightarrow> js_error option) \<Rightarrow> string \<Rightarrow>
   Browser option \<Rightarrow> js_error \<Rightarrow> (('w, 'z) module_state, unit) prog" where
  "startJobPosting2_catch P cb jid bo e =
     next_do (case bo of Some b \<Rightarrow> outside (close P b) | None \<Rightarrow> succeed ())
    (next_do (sessions_delete jid)
    (onStatusUpdate cb jid
       \<lparr>jobId = jid, status = failed, message = ''Failed to post job'',
        hipagesJobId = None, hipagesJobUrl = None, error = Some (error_message e)\<rparr>))"

definition startJobPosting2 ::
  "'w puppeteer \<Rightarrow> (HiPagesJobStatus \<Rightarrow> js_error option) \<Rightarrow> string \<Rightarrow> HiPagesJobRequest \<Rightarrow>
   (('w, unit) module_state, unit) prog" where
  "startJobPosting2 P cb jid job =
     catching (startJobPosting2_try P cb jid job) (startJobPosting2_catch P cb jid)"

text \<open>
  \<^verbatim>\<open>submitOtp\<close> (lines 513-570). The try block first writes \<^verbatim>\<open>submitting\<close> into
  the stored session; the URL alone is matched; the catch block closes the browser
  unguarded.
\<close>

definition submitOtp2_try ::
  "'w puppeteer \<Rightarrow> string \<Rightarrow> string \<Rightarrow> 'z Session_scheme \<Rightarrow>
   (('w, 'z) module_state, HiPagesJobStatus) prog" where
  \<open>submitOtp2_try P jid otpCode session =
     next_do (\<lambda>s. (Inr (), s\<lparr>activeSessions := (activeSessions s)(jid \<mapsto>
                session\<lparr>session_status :=
                  (session_status session)\<lparr>status := submitting, message := ''Verifying code...''\<rparr>\<rparr>)\<rparr>))
    (andThen (outside (query P (page session)
                ''input[type="text"], input[type="number"], input[name*="otp"], input[name*="code"], input[maxlength="6"]''))
       (\<lambda>otpInput.
     next_do (case otpInput of
                Some el \<Rightarrow> next_do (outside (click P el 3)) (outside (typeText P el otpCode 50))
              | None \<Rightarrow> succeed ())
    (next_do (outside (findAndClickButton P (page session) [''verify'', ''submit'', ''confirm'']))
    (next_do (outside (swallow (waitForNavigation P (page session) 15000)))
    (andThen (outside (url P (page session))) (\<lambda>currentUrl.
     let jobIdMatch = first_match job_slash_at currentUrl;
         hipagesJobId = jobIdMatch
     in next_do (outside (close P (browser session)))
       (next_do (sessions_delete jid)
       (succeed
          \<lparr>jobId = jid, status = completed, message = ''Job posted successfully!'',
           hipagesJobId = hipagesJobId,
           hipagesJobUrl =
             (case hipagesJobId of
                Some i \<Rightarrow>
                  if i \<noteq> []
                  then Some (''https://www.hipages.com.au/account/job/'' @ i @ ''/interested-businesses'')
                  else None
              | None \<Rightarrow> None),
           error = None\<rparr>))))))))\<close>

definition submitOtp2_catch ::
  "'w puppeteer \<Rightarrow> string \<Rightarrow> 'z Session_scheme \<Rightarrow> js_error \<Rightarrow>
   (('w, 'z) module_state, HiPagesJobStatus) prog" where
  "submitOtp2_catch P jid session e =
     next_do (outside (close P (browser session)))
    (next_do (sessions_delete jid)
    (succeed
       \<lparr>jobId = jid, status = failed, message = ''Failed to verify code'',
        hipagesJobId = None, hipagesJobUrl = None, error = Some (error_message e)\<rparr>))"

definition submitOtp2 ::
  "'w puppeteer \<Rightarrow> string \<Rightarrow> string \<Rightarrow> (('w, 'z) module_state, HiPagesJobStatus) prog" where
  "submitOtp2 P jid otpCode =
     (\<lambda>s. case activeSessions s jid of
        None \<Rightarrow>
          (Inr \<lparr>jobId = jid, status = failed, message = ''Session not found'',
                hipagesJobId = None, hipagesJobUrl = None,
                error = Some ''No active session for this job ID''\<rparr>, s)
      | Some session \<Rightarrow>
          tryCatch (submitOtp2_try P jid otpCode session) (submitOtp2_catch P jid session) s)"

text \<open>\<^verbatim>\<open>cancelSession\<close> (lines 575-581): the close is awaited unguarded.\<close>

definition cancelSession2 :: "'w puppeteer \<Rightarrow> string \<Rightarrow> (('w, 'z) module_state, unit) prog" where
  "cancelSession2 P jid =
     (\<lambda>s. case activeSessions s jid of
        Some session \<Rightarrow>
          next_do (outside (close P (browser session))) (sessions_delete jid) s
      | None \<Rightarrow> (Inr (), s))"

section \<open>Concrete inputs\<close>

text \<open>
  A site on which every capability succeeds and no selector matches anything, with
  the reliable file system, and variants of it in which one capability throws. The
  world is the time that has passed in milliseconds.
\<close>

definition site_ok :: "nat puppeteer" where
  "site_ok =
     \<lparr>PUPPETEER_EXECUTABLE_PATH = None, os_tmpdir = ''/tmp'',
      path_join = (\<lambda>a b. a @ ''/'' @ b), base64_decode = (\<lambda>d. d),
      pp_now = (\<lambda>w. w), pp_delay = (\<lambda>ms w. w + ms),
      pp_launch = (\<lambda>p w. (Inr (Browser 1), w)),
      pp_newPage = (\<lambda>b w. (Inr (Page 1), w)),
      pp_setViewport = (\<lambda>pg x y w. (Inr (), w)),
      pp_setUserAgent = (\<lambda>pg u w. (Inr (), w)),
      pp_goto = (\<lambda>pg u t w. (Inr (), w)),
      pp_waitForSelector = (\<lambda>pg u t w. (Inr (), w)),
      pp_waitForNavigation = (\<lambda>pg t w. (Inr (), w)),
      pp_query = (\<lambda>pg sel w. (Inr None, w)),
      pp_queryAll = (\<lambda>pg sel w. (Inr [], w)),
      pp_textContent = (\<lambda>pg el w. (Inr None, w)),
      pp_type = (\<lambda>el t d w. (Inr (), w)),
      pp_click = (\<lambda>el n w. (Inr (), w)),
      pp_press = (\<lambda>pg k w. (Inr (), w)),
      pp_uploadFile = (\<lambda>el ps w. (Inr (), w)),
      pp_url = (\<lambda>pg w. (Inr ''https://hipages.com.au/done'', w)),
      pp_content = (\<lambda>pg w. (Inr ''<html></html>'', w)),
      pp_close = (\<lambda>b w. (Inr (), w)),
      fs_writeFileSync = write_ok, fs_unlinkSync = unlink_ok\<rparr>"

definition close_error :: js_error where
  "close_error = Error ''Protocol error (Browser.close): Target closed''"

definition site_close_fails :: "nat puppeteer" where
  "site_close_fails = site_ok\<lparr>pp_close := (\<lambda>b w. (Inl close_error, w))\<rparr>"

definition site_timeout :: "nat puppeteer" where
  "site_timeout =
     site_ok\<lparr>pp_goto := (\<lambda>pg u t w. (Inl (Error ''Navigation timeout of 30000 ms exceeded''), w))\<rparr>"

definition site_timeout_close_fails :: "nat puppeteer" where
  "site_timeout_close_fails = site_timeout\<lparr>pp_close := (\<lambda>b w. (Inl close_error, w))\<rparr>"

definition site_no_page_close_fails :: "nat puppeteer" where
  "site_no_page_close_fails =
     site_close_fails\<lparr>pp_newPage := (\<lambda>b w. (Inl (Error ''Failed to open a new tab''), w))\<rparr>"

definition job0 :: HiPagesJobRequest where
  "job0 =
     \<lparr>categorySlug = ''plumbing'', categoryName = ''Plumbing'', postcode = ''2000'',
      suburb = None, description = ''Leaking tap'', propertyType = ''house'', timing = asap,
      contact = \<lparr>name = ''Jane Doe'', email = ''jane@example.com'', phone = ''0400000000''\<rparr>,
      photos = None\<rparr>"

definition host0 :: "nat host" where
  "host0 = \<lparr>world = 0, trace = [], files = Map.empty\<rparr>"

text \<open>No job is running; and job-1 waits for its code, in either implementation.\<close>

definition idle :: "(nat, 'z) module_state" where
  "idle = \<lparr>host = host0, activeSessions = Map.empty, updates = []\<rparr>"

definition session1_0 :: SessionData where
  "session1_0 =
     \<lparr>browser = Browser 1, page = Page 1,
      session_status = progress ''job-1'' awaiting_otp ''Waiting for OTP verification'',
      jobData = job0\<rparr>"

definition session2_0 :: Session where
  "session2_0 =
     \<lparr>browser = Browser 1, page = Page 1,
      session_status = progress ''job-1'' awaiting_otp ''Enter the code sent to 0400000000''\<rparr>"

definition waiting1 :: "(nat, \<lparr>jobData :: HiPagesJobRequest\<rparr>) module_state" where
  "waiting1 = \<lparr>host = host0, activeSessions = [''job-1'' \<mapsto> session1_0], updates = []\<rparr>"

definition waiting2 :: "(nat, unit) module_state" where
  "waiting2 = \<lparr>host = host0, activeSessions = [''job-1'' \<mapsto> session2_0], updates = []\<rparr>"

text \<open>
  After the code is verified the site shows the new job: its address matches the
  patterns of both implementations.
\<close>

definition site_posted :: "nat puppeteer" where
  "site_posted =
     site_ok\<lparr>pp_url := (\<lambda>pg w. (Inr ''https://www.hipages.com.au/account/job/4711/?jobid=4711'', w))\<rparr>"

definition posted1 :: HiPagesJobStatus where
  "posted1 =
     \<lparr>jobId = ''job-1'', status = completed, message = ''Job posted successfully!'',
      hipagesJobId = Some ''4711'', hipagesJobUrl = Some ''https://hipages.com.au/jobs/4711'',
      error = None\<rparr>"

definition posted2 :: HiPagesJobStatus where
  "posted2 =
     \<lparr>jobId = ''job-1'', status = completed, message = ''Job posted successfully!'',
      hipagesJobId = Some ''4711'',
      hipagesJobUrl = Some ''https://www.hipages.com.au/account/job/4711/interested-businesses'',
      error = None\<rparr>"

text \<open>
  A site that shows the new job in the page only: the address matches no pattern,
  the content matches the content pattern of the first implementation.
\<close>

definition site_content_id :: "nat puppeteer" where
  "site_content_id =
     site_ok\<lparr>pp_url := (\<lambda>pg w. (Inr ''https://www.hipages.com.au/get-quotes/thanks'', w)),
             pp_content := (\<lambda>pg w. (Inr ''<p>jobId: 31337</p>'', w))\<rparr>"

definition found1 :: HiPagesJobStatus where
  "found1 =
     \<lparr>jobId = ''job-1'', status = completed, message = ''Job posted successfully!'',
      hipagesJobId = Some ''31337'', hipagesJobUrl = Some ''https://hipages.com.au/jobs/31337'',
      error = None\<rparr>"

definition bare :: HiPagesJobStatus where
  "bare =
     \<lparr>jobId = ''job-1'', status = completed, message = ''Job posted successfully!'',
      hipagesJobId = None, hipagesJobUrl = None, error = None\<rparr>"

text \<open>A page with a file input (element 7) on which the upload throws; two photos.\<close>

definition upload_error :: js_error where
  "upload_error = Error ''Protocol error (DOM.setFileInputFiles): Node is detached''"

definition site_upload_fails :: "nat puppeteer" where
  \<open>site_upload_fails =
     site_ok\<lparr>pp_query := (\<lambda>pg sel w.
                  (Inr (if sel = ''input[type="file"]'' then Some (Element 7) else None), w)),
             pp_uploadFile := (\<lambda>el ps w. (Inl upload_error, w))\<rparr>\<close>

text \<open>
  The same page with an upload that succeeds, on two file systems that fail: one
  refuses to remove a file, the other runs out of space while it writes and leaves
  the file it created, empty.
\<close>

definition site_unlink_denied :: "nat puppeteer" where
  \<open>site_unlink_denied =
     site_ok\<lparr>pp_query := (\<lambda>pg sel w.
                  (Inr (if sel = ''input[type="file"]'' then Some (Element 7) else None), w)),
             fs_unlinkSync := (\<lambda>path fs. (Some (Error ''EPERM: operation not permitted''), fs))\<rparr>\<close>

definition site_disk_full :: "nat puppeteer" where
  \<open>site_disk_full =
     site_ok\<lparr>pp_query := (\<lambda>pg sel w.
                  (Inr (if sel = ''input[type="file"]'' then Some (Element 7) else None), w)),
             fs_writeFileSync := (\<lambda>path data fs.
                  (Some (Error ''ENOSPC: no space left on device''), fs(path \<mapsto> [])))\<rparr>\<close>

definition photos0 :: Photos where
  "photos0 =
     \<lparr>original = Some ''data:image/png;base64,AAAA'',
      visualization = Some ''data:image/jpeg;base64,BBBB''\<rparr>"

text \<open>
  A page that shows its free-text area from the start, next to one choice-control
  (element 5) that is not selected.
\<close>

definition site_form :: "nat puppeteer" where
  \<open>site_form =
     site_ok\<lparr>pp_query := (\<lambda>pg sel w.
                  (Inr (if sel = ''textarea'' then Some (Element 3) else None), w)),
             pp_queryAll := (\<lambda>pg sel w.
                  (Inr (if sel = ''input[type="radio"]'' \<or> sel = ''input[type="radio"]:not(:checked)''
                        then [Element 5] else []), w))\<rparr>\<close>

text \<open>The job with its two photos, and a callback that never throws.\<close>

definition job1 :: HiPagesJobRequest where
  "job1 = job0\<lparr>photos := Some photos0\<rparr>"

definition quiet :: "HiPagesJobStatus \<Rightarrow> js_error option" where
  "quiet st = None"

text \<open>
  Three questionnaires, each with two choice-controls that are not selected
  (elements 5 and 6). The first never ends: there is never a free-text area, and a
  "Back" and a "Next" button (elements 8 and 9) are always there. The second shows
  its free-text area once 2500 milliseconds have passed. The third has no button.
\<close>

definition site_wizard :: "nat puppeteer" where
  \<open>site_wizard =
     site_ok\<lparr>pp_queryAll := (\<lambda>pg sel w.
                  (Inr (if sel = ''input[type="radio"]:not(:checked)'' then [Element 5, Element 6]
                        else if sel = ''button, input[type="submit"], a'' then [Element 8, Element 9]
                        else []), w)),
             pp_textContent := (\<lambda>pg el w.
                  (Inr (if el = Element 8 then Some ''Back''
                        else if el = Element 9 then Some ''Next'' else None), w))\<rparr>\<close>

definition site_two_questions :: "nat puppeteer" where
  \<open>site_two_questions =
     site_wizard\<lparr>pp_query := (\<lambda>pg sel w.
                  (Inr (if sel = ''textarea'' \<and> 2500 \<le> w then Some (Element 3) else None), w))\<rparr>\<close>

definition site_last_question :: "nat puppeteer" where
  \<open>site_last_question =
     site_ok\<lparr>pp_queryAll := (\<lambda>pg sel w.
                  (Inr (if sel = ''input[type="radio"]:not(:checked)'' then [Element 5, Element 6]
                        else []), w))\<rparr>\<close>
section \<open>Assertions about runs\<close>

text \<open>
  \<open>calls_at_most Q k m\<close>: a run of \<open>m\<close> only appends to the record of calls, and
  at most \<open>k\<close> of the appended calls satisfy \<open>Q\<close>.
\<close>

definition calls_at_most :: "(call \<Rightarrow> bool) \<Rightarrow> nat \<Rightarrow> ('w host, 'a) prog \<Rightarrow> bool" where
  "calls_at_most Q k m =
     (\<forall>h. \<exists>new. trace (snd (m h)) = trace h @ new \<and> length (filter Q new) \<le> k)"

text \<open>
  The paths given to \<^verbatim>\<open>fs.writeFileSync\<close> and to \<^verbatim>\<open>fs.unlinkSync\<close> in a record
  of calls, in order.
\<close>

definition written :: "call list \<Rightarrow> string list" where
  "written cs = concat (map (\<lambda>c. case c of WriteFile p \<Rightarrow> [p] | _ \<Rightarrow> []) cs)"

definition unlinked :: "call list \<Rightarrow> string list" where
  "unlinked cs = concat (map (\<lambda>c. case c of Unlink p \<Rightarrow> [p] | _ \<Rightarrow> []) cs)"

text \<open>
  A step of \<^verbatim>\<open>uploadPhotos\<close> that at most writes one file and pushes its path:
  it makes no call but \<^verbatim>\<open>fs.writeFileSync\<close>; when it returns, the paths it pushed
  are the paths it wrote; when it throws, it pushed nothing and the write threw. On
  the reliable file system it returns and changes no file but those it pushed.
\<close>

definition writes_files :: "'w puppeteer \<Rightarrow> ('w host \<times> string list, unit) prog \<Rightarrow> bool" where
  "writes_files P W =
     (\<forall>h l. \<exists>r h' ps ws.
        W (h, l) = (r, (h', l @ ps)) \<and> trace h' = trace h @ map WriteFile ws
      \<and> ((r = Inr () \<and> ws = ps) \<or> ((\<exists>e. r = Inl e) \<and> ps = [] \<and> length ws = 1))
      \<and> (reliable_fs P \<longrightarrow> r = Inr () \<and> (\<forall>p. p \<notin> set ps \<longrightarrow> files h' p = files h p)))"

text \<open>
  A triple for programs that may throw: from a state that satisfies \<open>pre\<close>, a run
  that returns \<open>x\<close> ends in a state with \<open>post x\<close>, and a run that throws ends in a
  state with \<open>exc\<close>.
\<close>

definition hoare ::
  "('s \<Rightarrow> bool) \<Rightarrow> ('s, 'a) prog \<Rightarrow> ('a \<Rightarrow> 's \<Rightarrow> bool) \<Rightarrow> ('s \<Rightarrow> bool) \<Rightarrow> bool" where
  "hoare pre m post exc =
     (\<forall>s. pre s \<longrightarrow> (case m s of (Inl e, s') \<Rightarrow> exc s' | (Inr x, s') \<Rightarrow> post x s'))"

text \<open>
  \<open>Got u0 a xs\<close>: the session store is \<open>a\<close> and the updates are \<open>u0\<close> followed by
  \<open>xs\<close>. \<open>Mid u0 a0 jid ex\<close>: the updates are \<open>u0\<close> followed by a prefix of \<open>ex\<close>,
  and no session but that of \<open>jid\<close> differs from \<open>a0\<close>.
\<close>

definition Got ::
  "(HiPagesJobStatus \<times> HiPagesJobStatus option) list \<Rightarrow> (string \<rightharpoonup> 'z Session_scheme) \<Rightarrow>
   (HiPagesJobStatus \<times> HiPagesJobStatus option) list \<Rightarrow> ('w, 'z) module_state \<Rightarrow> bool" where
  "Got u0 a xs s = (activeSessions s = a \<and> updates s = u0 @ xs)"

definition Mid ::
  "(HiPagesJobStatus \<times> HiPagesJobStatus option) list \<Rightarrow> (string \<rightharpoonup> 'z Session_scheme) \<Rightarrow>
   string \<Rightarrow> (HiPagesJobStatus \<times> HiPagesJobStatus option) list \<Rightarrow> ('w, 'z) module_state \<Rightarrow> bool" where
  "Mid u0 a0 jid ex s =
     ((\<exists>k. updates s = u0 @ take k ex) \<and> (\<forall>j. j \<noteq> jid \<longrightarrow> activeSessions s j = a0 j))"

text \<open>
  The updates a run of \<^verbatim>\<open>startJobPosting\<close> delivers when nothing fails, in the first
  implementation: \<open>pending\<close>, then the statuses of \<open>plan1\<close>. With each update stands
  what \<^verbatim>\<open>getJobStatus\<close> returns at that moment: after the session is registered,
  the status it was registered with.
\<close>

definition plan1 :: "string \<Rightarrow> HiPagesJobRequest \<Rightarrow> HiPagesJobStatus list" where
  "plan1 jid job =
     [progress jid filling_form ''Navigating to HiPages...'',
      progress jid filling_form ''Selecting category...'',
      progress jid filling_form ''Entering location...'',
      progress jid filling_form ''Getting quotes form...'',
      progress jid filling_form ''Answering questions...'',
      progress jid filling_form ''Adding job description...'']
     @ (if has_photos job then [progress jid uploading_photos ''Uploading photos...''] else [])
     @ [progress jid filling_form ''Entering contact details...'',
        progress jid awaiting_otp ''Please enter the verification code sent to your phone'']"

definition expected1 ::
  "string \<Rightarrow> HiPagesJobRequest \<Rightarrow> HiPagesJobStatus option \<Rightarrow>
   (HiPagesJobStatus \<times> HiPagesJobStatus option) list" where
  "expected1 jid job before =
     (progress jid pending ''Launching browser...'', before)
     # map (\<lambda>st. (st, Some (progress jid filling_form ''Starting...''))) (plan1 jid job)"

text \<open>
  The same for the second implementation. The first update is merged into the
  status of a session that is already stored under the job identifier, if there is
  one; every later update is written to the session before it is delivered.
\<close>

definition plan2 :: "string \<Rightarrow> HiPagesJobRequest \<Rightarrow> HiPagesJobStatus list" where
  "plan2 jid job =
     [progress jid filling_form ''Navigating to HiPages...'',
      progress jid filling_form ''Filling category...'',
      progress jid filling_form ''Filling location...'',
      progress jid filling_form ''Answering questions...'',
      progress jid filling_form ''Filling job description...'']
     @ (if has_photos job
        then [progress jid uploading_photos ''Uploading photos...'',
              progress jid uploading_photos ''Filling contact details...'']
        else [progress jid filling_form ''Filling contact details...''])
     @ [progress jid awaiting_otp (''Enter the code sent to '' @ phone (contact job))]"

definition first2 :: "string \<Rightarrow> HiPagesJobStatus option \<Rightarrow> HiPagesJobStatus" where
  "first2 jid before =
     merge (case before of Some st \<Rightarrow> st | None \<Rightarrow> progress jid pending ''Starting...'')
       \<lparr>patch_status = Some pending, patch_message = Some ''Launching browser...''\<rparr>"

definition expected2 ::
  "string \<Rightarrow> HiPagesJobRequest \<Rightarrow> HiPagesJobStatus option \<Rightarrow>
   (HiPagesJobStatus \<times> HiPagesJobStatus option) list" where
  "expected2 jid job before =
     (first2 jid before, map_option (\<lambda>st. first2 jid before) before)
     # map (\<lambda>st. (st, Some st)) (plan2 jid job)"

text \<open>What \<^verbatim>\<open>updateStatus\<close> does to a session store, and the update it delivers.\<close>

definition patched ::
  "(string \<rightharpoonup> 'z Session_scheme) \<Rightarrow> string \<Rightarrow> StatusPatch \<Rightarrow> (string \<rightharpoonup> 'z Session_scheme)" where
  "patched a jid p =
     (case a jid of
        Some session \<Rightarrow>
          a(jid \<mapsto> session\<lparr>session_status := merge (session_status session) p\<rparr>)
      | None \<Rightarrow> a)"

definition delivered ::
  "(string \<rightharpoonup> 'z Session_scheme) \<Rightarrow> string \<Rightarrow> StatusPatch \<Rightarrow>
   HiPagesJobStatus \<times> HiPagesJobStatus option" where
  "delivered a jid p =
     (case a jid of
        Some session \<Rightarrow>
          (merge (session_status session) p, Some (merge (session_status session) p))
      | None \<Rightarrow> (merge (progress jid pending ''Starting...'') p, None))"

text \<open>The \<open>failed\<close> status of the two catch blocks (lines 152-157 and 501-506).\<close>

definition failure1 :: "string \<Rightarrow> js_error \<Rightarrow> HiPagesJobStatus" where
  "failure1 jid e =
     \<lparr>jobId = jid, status = failed, message = ''Job posting failed'',
      hipagesJobId = None, hipagesJobUrl = None, error = Some (error_message e)\<rparr>"

definition failure2 :: "string \<Rightarrow> js_error \<Rightarrow> HiPagesJobStatus" where
  "failure2 jid e =
     \<lparr>jobId = jid, status = failed, message = ''Failed to post job'',
      hipagesJobId = None, hipagesJobUrl = None, error = Some (error_message e)\<rparr>"

text \<open>
  The question-answering stage in the words of the specification. One iteration
  stops the loop when a free-text area is on the page; otherwise it picks the first
  unselected choice-control on the page and clicks it (when there is one), then
  looks for a "next" control, which it clicks, and stops the loop when none is
  found. The loop runs the iteration until it stops, a bounded number of times.
  The result of an iteration says whether the loop goes on.
\<close>

definition spec_pick_choice :: "'w puppeteer \<Rightarrow> Page \<Rightarrow> ('w host, unit) prog" where
  \<open>spec_pick_choice P pg =
     andThen (queryAll P pg ''input[type="radio"]:not(:checked)'') (\<lambda>unselected.
       case unselected of
         [] \<Rightarrow> succeed ()
       | first # others \<Rightarrow> next_do (click P first 1) (delay P 500))\<close>

definition spec_iteration :: "'w puppeteer \<Rightarrow> Page \<Rightarrow> ('w host, bool) prog" where
  "spec_iteration P pg =
     andThen (query P pg ''textarea'') (\<lambda>textArea.
       if textArea \<noteq> None then succeed False
       else next_do (spec_pick_choice P pg)
           (andThen (findAndClickButton P pg [''next'', ''continue'']) (\<lambda>found.
              if found then next_do (delay P 1000) (succeed True) else succeed False)))"

primrec spec_bounded_loop :: "nat \<Rightarrow> ('s, bool) prog \<Rightarrow> ('s, unit) prog" where
  "spec_bounded_loop 0 step = succeed ()"
| "spec_bounded_loop (Suc n) step =
     andThen step (\<lambda>go_on. if go_on then spec_bounded_loop n step else succeed ())"

text \<open>
  The try block of \<^verbatim>\<open>submitOtp\<close> up to the point where the address of the page
  is read: lines 176-188 (the code is typed, the verify button clicked, three
  seconds pass) and lines 526-538 (the cached status becomes \<open>submitting\<close>, the code
  is typed, a button is clicked, the navigation is awaited). The state it ends in
  is the one in which \<^verbatim>\<open>page.url()\<close> is called.
\<close>

definition submitOtp1_entry ::
  "'w puppeteer \<Rightarrow> string \<Rightarrow> 'z Session_scheme \<Rightarrow> (('w, 'z) module_state, unit) prog" where
  \<open>submitOtp1_entry P otp session =
     andThen (outside (query P (page session)
                ''input[type="text"][maxlength="6"], input[name="otp"], input[placeholder*="code"]''))
       (\<lambda>otpInput.
     next_do (case otpInput of
                Some el \<Rightarrow> outside (typeText P el otp 100)
              | None \<Rightarrow> succeed ())
    (andThen (outside (query P (page session)
                ''button[type="submit"], button:has-text("Verify"), button:has-text("Submit")''))
       (\<lambda>verifyButton.
     next_do (case verifyButton of
                Some el \<Rightarrow> outside (click P el 1)
              | None \<Rightarrow> succeed ())
             (outside (delay P 3000)))))\<close>

definition submitOtp2_entry ::
  "'w puppeteer \<Rightarrow> string \<Rightarrow> string \<Rightarrow> 'z Session_scheme \<Rightarrow>
   (('w, 'z) module_state, unit) prog" where
  \<open>submitOtp2_entry P jid otpCode session =
     next_do (\<lambda>s. (Inr (), s\<lparr>activeSessions := (activeSessions s)(jid \<mapsto>
                session\<lparr>session_status :=
                  (session_status session)\<lparr>status := submitting, message := ''Verifying code...''\<rparr>\<rparr>)\<rparr>))
    (andThen (outside (query P (page session)
                ''input[type="text"], input[type="number"], input[name*="otp"], input[name*="code"], input[maxlength="6"]''))
       (\<lambda>otpInput.
     next_do (case otpInput of
                Some el \<Rightarrow> next_do (outside (click P el 3)) (outside (typeText P el otpCode 50))
              | None \<Rightarrow> succeed ())
    (next_do (outside (findAndClickButton P (page session) [''verify'', ''submit'', ''confirm'']))
             (outside (swallow (waitForNavigation P (page session) 15000))))))\<close>

section \<open>The stage order\<close>

text \<open>
  The order of the stages, as the specification gives it. A sequence of statuses
  is monotonic when it can be read along this order without going back: from
  position \<open>p\<close> a status moves to the first position at or after \<open>p\<close> that holds
  it (staying where it is when it repeats the current stage); \<open>failed\<close> moves to a
  final position 7 that nothing can follow.
\<close>

definition stage_order :: "Status list" where
  "stage_order =
     [pending, filling_form, uploading_photos, filling_form, awaiting_otp, submitting, completed]"

definition advance :: "nat \<Rightarrow> Status \<Rightarrow> nat option" where
  "advance p st =
     (if 7 \<le> p then None
      else if st = failed then Some 7
      else (case filter (\<lambda>q. p \<le> q \<and> stage_order ! q = st) [0..<7] of
              [] \<Rightarrow> None
            | q # qs \<Rightarrow> Some q))"

fun walk :: "nat \<Rightarrow> Status list \<Rightarrow> nat option" where
  "walk p [] = Some p"
| "walk p (st # sts) = (case advance p st of None \<Rightarrow> None | Some q \<Rightarrow> walk q sts)"

definition monotonic :: "Status list \<Rightarrow> bool" where
  "monotonic sts = (walk 0 sts \<noteq> None)"

section \<open>Running the model\<close>

text \<open>The combinators applied to a state, for step-by-step evaluation.\<close>

lemma run_simps:
  "succeed x s = (Inr x, s)"
  "throw e s = (Inl e, s)"
  "andThen m f s = (case m s of (Inl e, s') \<Rightarrow> (Inl e, s') | (Inr x, s') \<Rightarrow> f x s')"
  "next_do m n s = (case m s of (Inl e, s') \<Rightarrow> (Inl e, s') | (Inr x, s') \<Rightarrow> n s')"
  "tryCatch m h s = (case m s of (Inl e, s') \<Rightarrow> h e s' | (Inr x, s') \<Rightarrow> (Inr x, s'))"
  "swallow m1 s = (case m1 s of (Inl e, s') \<Rightarrow> (Inr (), s') | (Inr x, s') \<Rightarrow> (Inr x, s'))"
  "tryFinally m fin s =
     (case m s of (r, s') \<Rightarrow>
        (case fin s' of (Inl e, s'') \<Rightarrow> (Inl e, s'') | (Inr u, s'') \<Rightarrow> (r, s'')))"
  "try_assigning m2 f2 s =
     (case m2 s of
        (Inl e, s1) \<Rightarrow> (Inl (e, None), s1)
      | (Inr b, s1) \<Rightarrow>
          (case f2 b s1 of (Inl e, s2) \<Rightarrow> (Inl (e, Some b), s2) | (Inr x, s2) \<Rightarrow> (Inr x, s2)))"
  "catching t h2 s = (case t s of (Inl (e, v), s') \<Rightarrow> h2 v e s' | (Inr x, s') \<Rightarrow> (Inr x, s'))"
  "with_local l0 m3 s = (case m3 (s, l0) of (r, (s', l)) \<Rightarrow> (r, s'))"
  "on_outer m4 (s, l) = (case m4 s of (r, s') \<Rightarrow> (r, (s', l)))"
  "get_local (s, l) = (Inr l, (s, l))"
  "push_local y (s, ys) = (Inr (), (s, ys @ [y]))"
  by (simp_all add: succeed_def throw_def andThen_def next_do_def tryCatch_def swallow_def
      tryFinally_def try_assigning_def catching_def with_local_def on_outer_def get_local_def
      push_local_def split: prod.splits sum.splits)

lemma outside_run:
  "outside m \<lparr>host = h, activeSessions = a, updates = u\<rparr> =
     (case m h of (r, h') \<Rightarrow> (r, \<lparr>host = h', activeSessions = a, updates = u\<rparr>))"
  by (simp add: outside_def)

lemma perform_run:
  "perform c f \<lparr>world = w, trace = t, files = fs\<rparr> =
     (case f w of (r, w') \<Rightarrow> (r, \<lparr>world = w', trace = t @ [c], files = fs\<rparr>))"
  by (simp add: perform_def)

lemmas capability_defs =
  delay_def launch_def newPage_def setViewport_def setUserAgent_def goto_def
  waitForSelector_def waitForNavigation_def query_def queryAll_def textContent_def typeText_def
  click_def press_def uploadFile_def url_def content_def close_def Date_now_def
  writeFileSync_def unlinkSync_def write_ok_def unlink_ok_def

lemmas store_defs =
  getJobStatus_def onStatusUpdate_def sessions_set_def sessions_delete_def progress_def
  executablePath_def has_photos_def truthy_def error_message_def

lemmas impl1_defs =
  fillCategory1_def fillLocation1_def clickGetQuotes1_def answerFormQuestions1_def
  fillDescription1_def uploadPhotos1_def fillContactDetails1_def startJobPosting1_stages_def
  startJobPosting1_try_def startJobPosting1_catch_def startJobPosting1_def extract1_def
  submitOtp1_try_def submitOtp1_catch_def submitOtp1_def cancelSession1_def

lemmas impl2_defs =
  fillCategory2_def fillLocation2_def clickGetQuotes2_def answerFormQuestions2_def
  fillDescription2_def uploadPhotos2_def fillContactDetails2_def merge_def updateStatus_def
  startJobPosting2_stages_def startJobPosting2_try_def startJobPosting2_catch_def
  startJobPosting2_def submitOtp2_try_def submitOtp2_catch_def submitOtp2_def cancelSession2_def

lemmas input_defs =
  site_ok_def close_error_def site_close_fails_def site_timeout_def site_timeout_close_fails_def
  site_no_page_close_fails_def job0_def host0_def idle_def waiting1_def waiting2_def
  session1_0_def session2_0_def site_posted_def posted1_def posted2_def upload_error_def
  site_content_id_def found1_def bare_def
  site_wizard_def site_two_questions_def site_last_question_def
  job1_def quiet_def
  site_upload_fails_def site_unlink_denied_def site_disk_full_def photos0_def site_form_def

lemmas string_defs =
  startsWith_def lower_char_def toLowerCase_def upper_ascii_def is_digit_def is_word_def
  latin1_capitals_def latin1_smalls_def is_space_def opt_char_def digits1_def job_id_url_at_def job_id_content_at_def job_slash_at_def
  strip_data_uri_def

lemmas run_all =
  run_simps outside_run perform_run capability_defs store_defs impl1_defs impl2_defs input_defs
  string_defs Let_def

section \<open>submitOtp and cancelSession\<close>

text \<open>
  Claim C3. On a job identifier with no session, \<^verbatim>\<open>submitOtp\<close> returns (it does
  not throw) a \<open>failed\<close> status with the message "Session not found", and the whole
  state is left as it was: the session store, the updates, the world and the record
  of capability calls, so no browser is touched. Both implementations.
\<close>

theorem submitOtp_unknown_session:
  assumes "activeSessions s1 jid = None" and "activeSessions s2 jid = None"
  shows "submitOtp1 P jid otp s1 =
           (Inr \<lparr>jobId = jid, status = failed, message = ''Session not found'',
                 hipagesJobId = None, hipagesJobUrl = None,
                 error = Some ''No active session for this job''\<rparr>, s1)
       \<and> submitOtp2 P jid otp s2 =
           (Inr \<lparr>jobId = jid, status = failed, message = ''Session not found'',
                 hipagesJobId = None, hipagesJobUrl = None,
                 error = Some ''No active session for this job ID''\<rparr>, s2)"
  using assms by (simp add: submitOtp1_def submitOtp2_def)

theorem submitOtp_unknown_session_witness:
  "activeSessions (idle :: (nat, unit) module_state) ''job-9'' = None
   \<and> submitOtp1 site_ok ''job-9'' ''123456'' (idle :: (nat, unit) module_state) =
       (Inr \<lparr>jobId = ''job-9'', status = failed, message = ''Session not found'',
             hipagesJobId = None, hipagesJobUrl = None,
             error = Some ''No active session for this job''\<rparr>, idle)
   \<and> submitOtp2 site_ok ''job-9'' ''123456'' (idle :: (nat, unit) module_state) =
       (Inr \<lparr>jobId = ''job-9'', status = failed, message = ''Session not found'',
             hipagesJobId = None, hipagesJobUrl = None,
             error = Some ''No active session for this job ID''\<rparr>, idle)"
proof -
  have h: "activeSessions (idle :: (nat, unit) module_state) ''job-9'' = None"
    by (simp add: idle_def)
  show ?thesis
    using h submitOtp_unknown_session [OF h h, of site_ok "''123456''"] by simp
qed

text \<open>
  Claim C1, on the second implementation. The job job-1 waits for its code and
  \<^verbatim>\<open>browser.close()\<close> throws. The try block of \<^verbatim>\<open>submitOtp\<close> (lines 527-555)
  throws at its close, the catch block (lines 557-569) awaits the close again,
  unguarded, and throws: the call rejects, and the session is still stored, with
  the status \<open>submitting\<close>.
\<close>

theorem submitOtp2_leaves_session:
  "fst (submitOtp2 site_close_fails ''job-1'' ''123456'' waiting2) = Inl close_error
   \<and> getJobStatus (snd (submitOtp2 site_close_fails ''job-1'' ''123456'' waiting2)) ''job-1'' =
       Some (progress ''job-1'' submitting ''Verifying code...'')"
  by (simp add: run_all cong: prod.case_cong_weak)

text \<open>
  Claim C5, on the second implementation. \<^verbatim>\<open>cancelSession\<close> (lines 575-581) awaits
  \<^verbatim>\<open>browser.close()\<close> unguarded: when the close throws, the call rejects with that
  error and the session is not removed.
\<close>

theorem cancelSession2_propagates_close_error:
  "fst (cancelSession2 site_close_fails ''job-1'' waiting2) = Inl close_error
   \<and> activeSessions (snd (cancelSession2 site_close_fails ''job-1'' waiting2)) ''job-1'' =
       activeSessions waiting2 ''job-1''
   \<and> activeSessions waiting2 ''job-1'' \<noteq> None"
  by (simp add: run_all cong: prod.case_cong_weak)

section \<open>startJobPosting when the browser cannot be closed\<close>

text \<open>
  Claim C2, on the second implementation. The navigation times out and
  \<^verbatim>\<open>browser.close()\<close> throws in the catch block (lines 493-507): the call rejects
  with the error of the close, the two updates delivered are \<open>pending\<close> and
  \<open>filling_form\<close>, no \<open>failed\<close> update is delivered, and the session is still stored.
\<close>

theorem startJobPosting2_no_failed_update:
  "fst (startJobPosting2 site_timeout_close_fails (\<lambda>st. None) ''job-1'' job0 idle) = Inl close_error
   \<and> map (status \<circ> fst)
        (updates (snd (startJobPosting2 site_timeout_close_fails (\<lambda>st. None) ''job-1'' job0 idle))) =
       [pending, filling_form]
   \<and> getJobStatus (snd (startJobPosting2 site_timeout_close_fails (\<lambda>st. None) ''job-1'' job0 idle))
        ''job-1'' = Some (progress ''job-1'' filling_form ''Navigating to HiPages...'')"
  by (simp add: run_all cong: prod.case_cong_weak)

text \<open>
  Claim C10, on the second implementation. The callback never throws; opening the
  page fails and so does \<^verbatim>\<open>browser.close()\<close> in the catch block: the promise of
  \<^verbatim>\<open>startJobPosting\<close> rejects.
\<close>

theorem startJobPosting2_rejects:
  "fst (startJobPosting2 site_no_page_close_fails (\<lambda>st. None) ''job-1'' job0 idle) = Inl close_error"
  by (simp add: run_all cong: prod.case_cong_weak)

section \<open>Temporary files of the photo upload\<close>

lemma written_simps:
  "written [] = []"
  "written (cs @ ds) = written cs @ written ds"
  "written (map WriteFile ps) = ps"
  "written (map Unlink ps) = []"
  "written (WriteFile p # cs) = p # written cs"
  "written (Query pg sel # cs) = written cs"
  "written (UploadFile el ps # cs) = written cs"
  "written (Delay ms # cs) = written cs"
  by (induction ps) (simp_all add: written_def)

lemma unlinked_simps:
  "unlinked [] = []"
  "unlinked (cs @ ds) = unlinked cs @ unlinked ds"
  "unlinked (map WriteFile ps) = []"
  "unlinked (map Unlink ps) = ps"
  "unlinked (Unlink p # cs) = p # unlinked cs"
  "unlinked (Query pg sel # cs) = unlinked cs"
  "unlinked (UploadFile el ps # cs) = unlinked cs"
  "unlinked (Delay ms # cs) = unlinked cs"
  by (induction ps) (simp_all add: unlinked_def)

lemma unlink_swallowed:
  "\<exists>h'. swallow (unlinkSync P f) h = (Inr (), h') \<and> trace h' = trace h @ [Unlink f]
        \<and> (reliable_fs P \<longrightarrow> files h' = (files h)(f := None))"
proof -
  obtain e fs' where u: "fs_unlinkSync P f (files h) = (e, fs')"
    by (cases "fs_unlinkSync P f (files h)")
  have "reliable_fs P \<longrightarrow> fs' = (files h)(f := None)"
  proof
    assume "reliable_fs P"
    with u have "unlink_ok f (files h) = (e, fs')" by (simp add: reliable_fs_def)
    then show "fs' = (files h)(f := None)"
      by (auto simp: unlink_ok_def fun_eq_iff split: if_splits)
  qed
  with u show ?thesis
    by (cases e) (simp_all add: run_simps unlinkSync_def)
qed

lemma forEach_unlink:
  "\<exists>h'. forEach fs (\<lambda>f. swallow (unlinkSync P f)) h = (Inr (), h')
        \<and> trace h' = trace h @ map Unlink fs
        \<and> (reliable_fs P \<longrightarrow> files h' = (\<lambda>p. if p \<in> set fs then None else files h p))"
proof (induction fs arbitrary: h)
  case Nil
  show ?case by (simp add: run_simps)
next
  case (Cons f fs)
  from unlink_swallowed [of P f h] obtain h1
    where a: "swallow (unlinkSync P f) h = (Inr (), h1)"
      and b: "trace h1 = trace h @ [Unlink f]"
      and c: "reliable_fs P \<longrightarrow> files h1 = (files h)(f := None)"
    by blast
  from Cons [of h1] obtain h2
    where d: "forEach fs (\<lambda>f. swallow (unlinkSync P f)) h1 = (Inr (), h2)"
      and e: "trace h2 = trace h1 @ map Unlink fs"
      and g: "reliable_fs P \<longrightarrow> files h2 = (\<lambda>p. if p \<in> set fs then None else files h1 p)"
    by blast
  have "forEach (f # fs) (\<lambda>f. swallow (unlinkSync P f)) h = (Inr (), h2)"
    by (simp only: forEach.simps run_simps(4) a d prod.case sum.case)
  moreover have "trace h2 = trace h @ map Unlink (f # fs)"
    using b e by simp
  moreover have "reliable_fs P \<longrightarrow> files h2 = (\<lambda>p. if p \<in> set (f # fs) then None else files h p)"
    using c g by (auto simp: fun_eq_iff)
  ultimately show ?case by blast
qed

lemma perform_frame:
  "perform c f h = (r, h') \<Longrightarrow> files h' = files h \<and> trace h' = trace h @ [c]"
  by (auto simp: perform_def split: prod.splits)

lemma skip_step: "writes_files P (succeed ())"
  unfolding writes_files_def
proof (intro allI)
  fix h :: "'a host" and l :: "string list"
  show "\<exists>r h' ps ws. succeed () (h, l) = (r, (h', l @ ps)) \<and> trace h' = trace h @ map WriteFile ws
      \<and> ((r = Inr () \<and> ws = ps) \<or> ((\<exists>e. r = Inl e) \<and> ps = [] \<and> length ws = 1))
      \<and> (reliable_fs P \<longrightarrow> r = Inr () \<and> (\<forall>p. p \<notin> set ps \<longrightarrow> files h' p = files h p))"
    by (rule exI [of _ "Inr ()"], rule exI [of _ h], rule exI [of _ "[]"], rule exI [of _ "[]"])
       (simp add: run_simps)
qed

lemma write_step:
  "writes_files P
     (andThen (on_outer (Date_now P)) (\<lambda>t.
        next_do (on_outer (writeFileSync P (path t) (data t))) (push_local (path t))))"
  unfolding writes_files_def
proof (intro allI)
  fix h :: "'a host" and l :: "string list"
  let ?W = "andThen (on_outer (Date_now P)) (\<lambda>t.
        next_do (on_outer (writeFileSync P (path t) (data t))) (push_local (path t)))"
  let ?p = "path (pp_now P (world h))"
  let ?d = "data (pp_now P (world h))"
  obtain e fs' where w: "fs_writeFileSync P ?p ?d (files h) = (e, fs')"
    by (cases "fs_writeFileSync P ?p ?d (files h)")
  let ?h' = "h\<lparr>trace := trace h @ [WriteFile ?p], files := fs'\<rparr>"
  show "\<exists>r h' ps ws. ?W (h, l) = (r, (h', l @ ps)) \<and> trace h' = trace h @ map WriteFile ws
      \<and> ((r = Inr () \<and> ws = ps) \<or> ((\<exists>e. r = Inl e) \<and> ps = [] \<and> length ws = 1))
      \<and> (reliable_fs P \<longrightarrow> r = Inr () \<and> (\<forall>p. p \<notin> set ps \<longrightarrow> files h' p = files h p))"
  proof (cases e)
    case None
    with w show ?thesis
      by (intro exI [of _ "Inr ()"] exI [of _ ?h'] exI [of _ "[?p]"])
         (auto simp: run_simps Date_now_def writeFileSync_def reliable_fs_def write_ok_def)
  next
    case (Some err)
    with w show ?thesis
      by (intro exI [of _ "Inl err"] exI [of _ ?h'] exI [of _ "[]"] exI [of _ "[?p]"])
         (auto simp: run_simps Date_now_def writeFileSync_def reliable_fs_def write_ok_def)
  qed
qed

text \<open>
  The try block of \<^verbatim>\<open>uploadPhotos\<close>, for any two steps that write files: the calls
  it makes, the paths it has pushed when it ends, and the files it leaves.
\<close>

lemma upload_try:
  fixes W1 W2 :: "('w host \<times> string list, unit) prog"
  assumes W1: "writes_files P W1" and W2: "writes_files P W2"
  shows "\<exists>r h1 l pre rest.
      next_do W1 (next_do W2
        (andThen get_local (\<lambda>tf.
           if tf \<noteq> [] then next_do (on_outer (uploadFile P fi tf)) (on_outer (delay P 2000))
           else succeed ()))) (h, []) = (r, (h1, l))
    \<and> trace h1 = trace h @ pre \<and> unlinked pre = []
    \<and> (\<forall>el ps. UploadFile el ps \<in> set pre \<longrightarrow> ps = l)
    \<and> written pre = l @ rest \<and> length rest \<le> 1 \<and> (rest \<noteq> [] \<longrightarrow> (\<exists>e. r = Inl e))
    \<and> (reliable_fs P \<longrightarrow> rest = [] \<and> (\<forall>p. p \<notin> set l \<longrightarrow> files h1 p = files h p))"
proof -
  let ?U = "andThen get_local (\<lambda>tf.
           if tf \<noteq> [] then next_do (on_outer (uploadFile P fi tf)) (on_outer (delay P 2000))
           else succeed ())"
  let ?goal = "\<lambda>r h1 l pre rest.
      next_do W1 (next_do W2 ?U) (h, []) = (r, (h1, l))
    \<and> trace h1 = trace h @ pre \<and> unlinked pre = []
    \<and> (\<forall>el ps. UploadFile el ps \<in> set pre \<longrightarrow> ps = l)
    \<and> written pre = l @ rest \<and> length rest \<le> 1 \<and> (rest \<noteq> [] \<longrightarrow> (\<exists>e. r = Inl e))
    \<and> (reliable_fs P \<longrightarrow> rest = [] \<and> (\<forall>p. p \<notin> set l \<longrightarrow> files h1 p = files h p))"
  from W1 obtain r1 h1 ps1 ws1
    where w1: "W1 (h, []) = (r1, (h1, ps1))"
      and t1: "trace h1 = trace h @ map WriteFile ws1"
      and c1: "(r1 = Inr () \<and> ws1 = ps1) \<or> ((\<exists>e. r1 = Inl e) \<and> ps1 = [] \<and> length ws1 = 1)"
      and k1: "reliable_fs P \<longrightarrow> r1 = Inr () \<and> (\<forall>p. p \<notin> set ps1 \<longrightarrow> files h1 p = files h p)"
    unfolding writes_files_def by (metis append_Nil)
  show ?thesis
  proof (cases r1)
    case (Inl e)
    with c1 k1 have "ps1 = []" "length ws1 = 1" "\<not> reliable_fs P" by auto
    with w1 t1 Inl have "?goal (Inl e) h1 [] (map WriteFile ws1) ws1"
      by (auto simp: run_simps written_simps unlinked_simps)
    then show ?thesis by blast
  next
    case (Inr u)
    with c1 have ws1: "ws1 = ps1" by auto
    from W2 obtain r2 h2 ps2 ws2
      where w2: "W2 (h1, ps1) = (r2, (h2, ps1 @ ps2))"
        and t2: "trace h2 = trace h1 @ map WriteFile ws2"
        and c2: "(r2 = Inr () \<and> ws2 = ps2) \<or> ((\<exists>e. r2 = Inl e) \<and> ps2 = [] \<and> length ws2 = 1)"
        and k2: "reliable_fs P \<longrightarrow> r2 = Inr () \<and> (\<forall>p. p \<notin> set ps2 \<longrightarrow> files h2 p = files h1 p)"
      unfolding writes_files_def by metis
    have keep: "reliable_fs P \<longrightarrow> (\<forall>p. p \<notin> set (ps1 @ ps2) \<longrightarrow> files h2 p = files h p)"
      using k1 k2 by auto
    show ?thesis
    proof (cases r2)
      case (Inl e)
      with c2 k2 have "ps2 = []" "length ws2 = 1" "\<not> reliable_fs P" by auto
      with w1 w2 t1 t2 Inr Inl ws1
      have "?goal (Inl e) h2 ps1 (map WriteFile ps1 @ map WriteFile ws2) ws2"
        by (auto simp: run_simps written_simps unlinked_simps)
      then show ?thesis by blast
    next
      case r2: (Inr u2)
      with c2 have ws2: "ws2 = ps2" by auto
      let ?tf = "ps1 @ ps2"
      let ?wr = "map WriteFile ps1 @ map WriteFile ps2"
      have t: "trace h2 = trace h @ ?wr"
        using t1 t2 ws1 ws2 by simp
      show ?thesis
      proof (cases "?tf = []")
        case True
        with w1 w2 Inr r2 t keep have "?goal (Inr ()) h2 [] ?wr []"
          by (auto simp: run_simps written_simps unlinked_simps)
        then show ?thesis by blast
      next
        case False
        obtain ru hu where up: "uploadFile P fi ?tf h2 = (ru, hu)"
          by (cases "uploadFile P fi ?tf h2")
        then have fu: "files hu = files h2" "trace hu = trace h @ ?wr @ [UploadFile fi ?tf]"
          using perform_frame [of "UploadFile fi ?tf" "pp_uploadFile P fi ?tf" h2 ru hu] t
          by (simp_all add: uploadFile_def)
        show ?thesis
        proof (cases ru)
          case (Inl e)
          with w1 w2 Inr r2 False up fu keep
          have "?goal (Inl e) hu ?tf (?wr @ [UploadFile fi ?tf]) []"
            by (auto simp: run_simps written_simps unlinked_simps)
          then show ?thesis by blast
        next
          case ru: (Inr u3)
          obtain rd hd where dl: "delay P 2000 hu = (rd, hd)"
            by (cases "delay P 2000 hu")
          then have fd: "files hd = files h2"
              "trace hd = trace h @ ?wr @ [UploadFile fi ?tf, Delay 2000]"
            using perform_frame [of "Delay 2000" _ hu rd hd] fu
            by (simp_all add: delay_def)
          with w1 w2 Inr r2 False up ru dl keep
          have "?goal rd hd ?tf (?wr @ [UploadFile fi ?tf, Delay 2000]) []"
            by (auto simp: run_simps written_simps unlinked_simps)
          then show ?thesis by blast
        qed
      qed
    qed
  qed
qed

text \<open>The whole stage, with the query for the file input in front.\<close>

lemma upload_stage:
  fixes W1 W2 :: "('w host \<times> string list, unit) prog"
  assumes W1: "writes_files P W1" and W2: "writes_files P W2"
    and stage: "stage =
      andThen (query P pg sel) (\<lambda>fileInput.
        case fileInput of
          None \<Rightarrow> succeed ()
        | Some fi \<Rightarrow>
            with_local []
             (tryFinally
               (next_do W1 (next_do W2
                  (andThen get_local (\<lambda>tf.
                     if tf \<noteq> [] then next_do (on_outer (uploadFile P fi tf)) (on_outer (delay P 2000))
                     else succeed ()))))
               (andThen get_local (\<lambda>tf. on_outer (forEach tf (\<lambda>f. swallow (unlinkSync P f)))))))"
  shows "\<exists>tempFiles pre rest.
      trace (snd (stage h)) = trace h @ pre @ map Unlink tempFiles
    \<and> unlinked pre = []
    \<and> (\<forall>el ps. UploadFile el ps \<in> set pre \<longrightarrow> ps = tempFiles)
    \<and> written pre = tempFiles @ rest \<and> length rest \<le> 1
    \<and> (rest \<noteq> [] \<longrightarrow> (\<exists>e. fst (stage h) = Inl e))
    \<and> (reliable_fs P \<longrightarrow> rest = []
          \<and> files (snd (stage h)) = (\<lambda>p. if p \<in> set tempFiles then None else files h p))"
proof -
  let ?goal = "\<lambda>tempFiles pre rest.
      trace (snd (stage h)) = trace h @ pre @ map Unlink tempFiles
    \<and> unlinked pre = []
    \<and> (\<forall>el ps. UploadFile el ps \<in> set pre \<longrightarrow> ps = tempFiles)
    \<and> written pre = tempFiles @ rest \<and> length rest \<le> 1
    \<and> (rest \<noteq> [] \<longrightarrow> (\<exists>e. fst (stage h) = Inl e))
    \<and> (reliable_fs P \<longrightarrow> rest = []
          \<and> files (snd (stage h)) = (\<lambda>p. if p \<in> set tempFiles then None else files h p))"
  obtain rq hq where q: "query P pg sel h = (rq, hq)"
    by (cases "query P pg sel h")
  then have fq: "files hq = files h" "trace hq = trace h @ [Query pg sel]"
    using perform_frame [of _ _ h rq hq] by (simp_all add: query_def)
  show ?thesis
  proof (cases rq)
    case (Inl e)
    with q fq have "?goal [] [Query pg sel] []"
      by (auto simp: stage run_simps written_simps unlinked_simps)
    then show ?thesis by blast
  next
    case (Inr fileInput)
    show ?thesis
    proof (cases fileInput)
      case None
      with Inr q fq have "?goal [] [Query pg sel] []"
        by (auto simp: stage run_simps written_simps unlinked_simps)
      then show ?thesis by blast
    next
      case (Some fi)
      let ?body = "next_do W1 (next_do W2
              (andThen get_local (\<lambda>tf.
                 if tf \<noteq> [] then next_do (on_outer (uploadFile P fi tf)) (on_outer (delay P 2000))
                 else succeed ())))"
      let ?fin = "andThen get_local (\<lambda>tf. on_outer (forEach tf (\<lambda>f. swallow (unlinkSync P f))))"
      from upload_try [OF W1 W2, of fi hq] obtain r h1 l pre rest
        where tr: "?body (hq, []) = (r, (h1, l))"
          and t1: "trace h1 = trace hq @ pre" and un: "unlinked pre = []"
          and up: "\<forall>el ps. UploadFile el ps \<in> set pre \<longrightarrow> ps = l"
          and wr: "written pre = l @ rest" and le: "length rest \<le> 1"
          and th: "rest \<noteq> [] \<longrightarrow> (\<exists>e. r = Inl e)"
          and rl: "reliable_fs P \<longrightarrow> rest = [] \<and> (\<forall>p. p \<notin> set l \<longrightarrow> files h1 p = files hq p)"
        by blast
      from forEach_unlink [of l P h1] obtain h2
        where fe: "forEach l (\<lambda>f. swallow (unlinkSync P f)) h1 = (Inr (), h2)"
          and t2: "trace h2 = trace h1 @ map Unlink l"
          and f2: "reliable_fs P \<longrightarrow> files h2 = (\<lambda>p. if p \<in> set l then None else files h1 p)"
        by blast
      have fin: "?fin (h1, l) = (Inr (), (h2, l))"
        by (simp add: run_simps fe)
      have blk: "tryFinally ?body ?fin (hq, []) = (r, (h2, l))"
        by (simp only: run_simps(7) tr fin prod.case sum.case)
      have res: "stage h = (r, h2)"
        using q Inr Some blk by (simp add: stage run_simps(3,10))
      have "reliable_fs P \<longrightarrow> files h2 = (\<lambda>p. if p \<in> set l then None else files h p)"
        using f2 rl fq by (auto simp: fun_eq_iff)
      with t1 t2 fq un up wr le th rl have "?goal l (Query pg sel # pre) rest"
        unfolding res fst_conv snd_conv
        by (auto simp: written_simps unlinked_simps)
      then show ?thesis by blast
    qed
  qed
qed

text \<open>
  Claim C6, as amended. Whatever \<^verbatim>\<open>uploadPhotos\<close> returns or throws, in either
  implementation and on every file system: the calls of the stage are some calls
  \<open>pre\<close>, none of them an unlink, followed by one call of \<^verbatim>\<open>fs.unlinkSync\<close> for
  each path of a list \<open>tempFiles\<close>, in order. Every call of \<^verbatim>\<open>uploadFile\<close>
  submitted exactly these paths, and they are the paths given to
  \<^verbatim>\<open>fs.writeFileSync\<close>, but for the last one when that write threw (then the stage
  throws). So every temporary file whose write returned is passed to
  \<^verbatim>\<open>fs.unlinkSync\<close> before the stage ends, also when the upload throws. On the
  reliable file system every write returns, and the files left afterwards are the
  files from before without these paths: no temporary file outlives the stage.
\<close>

theorem uploadPhotos_unlinks_temp_files:
  "(\<exists>tempFiles pre rest.
      trace (snd (uploadPhotos1 P pg ph h)) = trace h @ pre @ map Unlink tempFiles
    \<and> unlinked pre = []
    \<and> (\<forall>el ps. UploadFile el ps \<in> set pre \<longrightarrow> ps = tempFiles)
    \<and> written pre = tempFiles @ rest \<and> length rest \<le> 1
    \<and> (rest \<noteq> [] \<longrightarrow> (\<exists>e. fst (uploadPhotos1 P pg ph h) = Inl e))
    \<and> (reliable_fs P \<longrightarrow> rest = []
          \<and> files (snd (uploadPhotos1 P pg ph h)) =
              (\<lambda>p. if p \<in> set tempFiles then None else files h p)))
 \<and> (\<exists>tempFiles pre rest.
      trace (snd (uploadPhotos2 P pg ph h)) = trace h @ pre @ map Unlink tempFiles
    \<and> unlinked pre = []
    \<and> (\<forall>el ps. UploadFile el ps \<in> set pre \<longrightarrow> ps = tempFiles)
    \<and> written pre = tempFiles @ rest \<and> length rest \<le> 1
    \<and> (rest \<noteq> [] \<longrightarrow> (\<exists>e. fst (uploadPhotos2 P pg ph h) = Inl e))
    \<and> (reliable_fs P \<longrightarrow> rest = []
          \<and> files (snd (uploadPhotos2 P pg ph h)) =
              (\<lambda>p. if p \<in> set tempFiles then None else files h p)))"
proof
  have w1: "\<And>d name. writes_files P
      (if d \<noteq> [] \<and> startsWith d ''data:'' then
         andThen (on_outer (Date_now P)) (\<lambda>t.
           let tempPath = path_join P (os_tmpdir P) (name @ show_nat t @ ''.jpg'');
               base64Data = strip_data_uri d
           in next_do (on_outer (writeFileSync P tempPath (base64_decode P base64Data)))
                      (push_local tempPath))
       else succeed ())"
    by (simp add: Let_def skip_step write_step)
  have w2: "\<And>d name. writes_files P
      (if d \<noteq> [] then
         andThen (on_outer (Date_now P)) (\<lambda>t.
           let tempPath = path_join P (os_tmpdir P) (name @ show_nat t @ ''.jpg'');
               base64Data = strip_data_uri d
           in next_do (on_outer (writeFileSync P tempPath (base64_decode P base64Data)))
                      (push_local tempPath))
       else succeed ())"
    by (simp add: Let_def skip_step write_step)
  show "\<exists>tempFiles pre rest.
      trace (snd (uploadPhotos1 P pg ph h)) = trace h @ pre @ map Unlink tempFiles
    \<and> unlinked pre = []
    \<and> (\<forall>el ps. UploadFile el ps \<in> set pre \<longrightarrow> ps = tempFiles)
    \<and> written pre = tempFiles @ rest \<and> length rest \<le> 1
    \<and> (rest \<noteq> [] \<longrightarrow> (\<exists>e. fst (uploadPhotos1 P pg ph h) = Inl e))
    \<and> (reliable_fs P \<longrightarrow> rest = []
          \<and> files (snd (uploadPhotos1 P pg ph h)) =
              (\<lambda>p. if p \<in> set tempFiles then None else files h p))"
    by (rule upload_stage [OF _ _ uploadPhotos1_def])
       (auto simp: skip_step w1 split: option.splits)
  show "\<exists>tempFiles pre rest.
      trace (snd (uploadPhotos2 P pg ph h)) = trace h @ pre @ map Unlink tempFiles
    \<and> unlinked pre = []
    \<and> (\<forall>el ps. UploadFile el ps \<in> set pre \<longrightarrow> ps = tempFiles)
    \<and> written pre = tempFiles @ rest \<and> length rest \<le> 1
    \<and> (rest \<noteq> [] \<longrightarrow> (\<exists>e. fst (uploadPhotos2 P pg ph h) = Inl e))
    \<and> (reliable_fs P \<longrightarrow> rest = []
          \<and> files (snd (uploadPhotos2 P pg ph h)) =
              (\<lambda>p. if p \<in> set tempFiles then None else files h p))"
    by (rule upload_stage [OF _ _ uploadPhotos2_def])
       (auto simp: skip_step w2 split: option.splits)
qed

theorem uploadPhotos_unlinks_temp_files_witness:
  "reliable_fs site_upload_fails
 \<and> fst (uploadPhotos1 site_upload_fails (Page 1) photos0 host0) = Inl upload_error
 \<and> fst (uploadPhotos2 site_upload_fails (Page 1) photos0 host0) = Inl upload_error
 \<and> trace (snd (uploadPhotos1 site_upload_fails (Page 1) photos0 host0)) =
      [Query (Page 1) ''input[type=\"file\"]'',
       WriteFile ''/tmp/hipages_original_0.jpg'', WriteFile ''/tmp/hipages_viz_0.jpg'',
       UploadFile (Element 7) [''/tmp/hipages_original_0.jpg'', ''/tmp/hipages_viz_0.jpg''],
       Unlink ''/tmp/hipages_original_0.jpg'', Unlink ''/tmp/hipages_viz_0.jpg'']
 \<and> trace (snd (uploadPhotos2 site_upload_fails (Page 1) photos0 host0)) =
      [Query (Page 1) ''input[type=\"file\"]'',
       WriteFile ''/tmp/hipages_original_0.jpg'', WriteFile ''/tmp/hipages_viz_0.jpg'',
       UploadFile (Element 7) [''/tmp/hipages_original_0.jpg'', ''/tmp/hipages_viz_0.jpg''],
       Unlink ''/tmp/hipages_original_0.jpg'', Unlink ''/tmp/hipages_viz_0.jpg'']
 \<and> files (snd (uploadPhotos1 site_upload_fails (Page 1) photos0 host0)) ''/tmp/hipages_original_0.jpg'' = None
 \<and> files (snd (uploadPhotos1 site_upload_fails (Page 1) photos0 host0)) ''/tmp/hipages_viz_0.jpg'' = None
 \<and> files (snd (uploadPhotos2 site_upload_fails (Page 1) photos0 host0)) ''/tmp/hipages_original_0.jpg'' = None
 \<and> files (snd (uploadPhotos2 site_upload_fails (Page 1) photos0 host0)) ''/tmp/hipages_viz_0.jpg'' = None"
proof -
  let ?paths = "[''/tmp/hipages_original_0.jpg'', ''/tmp/hipages_viz_0.jpg'']"
  let ?calls = "[Query (Page 1) ''input[type=\"file\"]'',
       WriteFile ''/tmp/hipages_original_0.jpg'', WriteFile ''/tmp/hipages_viz_0.jpg'',
       UploadFile (Element 7) ?paths,
       Unlink ''/tmp/hipages_original_0.jpg'', Unlink ''/tmp/hipages_viz_0.jpg'']"
  have rel: "reliable_fs site_upload_fails"
    by (simp add: reliable_fs_def site_upload_fails_def site_ok_def)
  have r1: "fst (uploadPhotos1 site_upload_fails (Page 1) photos0 host0) = Inl upload_error"
    and t1: "trace (snd (uploadPhotos1 site_upload_fails (Page 1) photos0 host0)) = ?calls"
    by (simp_all add: run_all cong: prod.case_cong_weak)
  have r2: "fst (uploadPhotos2 site_upload_fails (Page 1) photos0 host0) = Inl upload_error"
    and t2: "trace (snd (uploadPhotos2 site_upload_fails (Page 1) photos0 host0)) = ?calls"
    by (simp_all add: run_all cong: prod.case_cong_weak)
  have u: "unlinked ?calls = ?paths"
    by (simp add: unlinked_def)
  from uploadPhotos_unlinks_temp_files [of site_upload_fails "Page 1" photos0 host0] rel
  obtain tf1 pre1 tf2 pre2 where
        n1: "trace (snd (uploadPhotos1 site_upload_fails (Page 1) photos0 host0)) =
               trace host0 @ pre1 @ map Unlink tf1"
    and u1: "unlinked pre1 = []"
    and f1: "files (snd (uploadPhotos1 site_upload_fails (Page 1) photos0 host0)) =
               (\<lambda>p. if p \<in> set tf1 then None else files host0 p)"
    and n2: "trace (snd (uploadPhotos2 site_upload_fails (Page 1) photos0 host0)) =
               trace host0 @ pre2 @ map Unlink tf2"
    and u2: "unlinked pre2 = []"
    and f2: "files (snd (uploadPhotos2 site_upload_fails (Page 1) photos0 host0)) =
               (\<lambda>p. if p \<in> set tf2 then None else files host0 p)"
    by blast
  have "unlinked (pre1 @ map Unlink tf1) = ?paths"
    using n1 t1 u by (simp add: host0_def)
  then have "tf1 = ?paths"
    by (simp only: unlinked_simps u1 append_Nil)
  moreover have "unlinked (pre2 @ map Unlink tf2) = ?paths"
    using n2 t2 u by (simp add: host0_def)
  then have "tf2 = ?paths"
    by (simp only: unlinked_simps u2 append_Nil)
  ultimately show ?thesis
    using rel r1 r2 t1 t2 f1 f2 by simp
qed

text \<open>
  Claim C6 as stated fails where the file system fails. The finally block ignores
  an error of \<^verbatim>\<open>fs.unlinkSync\<close> (lines 335 and 707-711): where the file system
  refuses to remove a file, the stage returns and the temporary file is still
  there. A path is pushed only after \<^verbatim>\<open>fs.writeFileSync\<close> has returned (lines
  318-319 and 689-690): where the write throws after it created the file, the
  finally block never unlinks it.
\<close>

theorem uploadPhotos_temp_file_outlives_stage:
  "files host0 ''/tmp/hipages_original_0.jpg'' = None
 \<and> fst (uploadPhotos1 site_unlink_denied (Page 1) photos0 host0) = Inr ()
 \<and> files (snd (uploadPhotos1 site_unlink_denied (Page 1) photos0 host0)) ''/tmp/hipages_original_0.jpg''
     = Some ''AAAA''
 \<and> fst (uploadPhotos2 site_unlink_denied (Page 1) photos0 host0) = Inr ()
 \<and> files (snd (uploadPhotos2 site_unlink_denied (Page 1) photos0 host0)) ''/tmp/hipages_original_0.jpg''
     = Some ''AAAA''
 \<and> files (snd (uploadPhotos1 site_disk_full (Page 1) photos0 host0)) ''/tmp/hipages_original_0.jpg''
     = Some []
 \<and> files (snd (uploadPhotos2 site_disk_full (Page 1) photos0 host0)) ''/tmp/hipages_original_0.jpg''
     = Some []"
  by (simp add: run_all cong: prod.case_cong_weak)
section \<open>The result of submitOtp\<close>

lemma andThen_InrE:
  assumes "andThen m f s = (Inr r, s')"
  obtains x s1 where "m s = (Inr x, s1)" and "f x s1 = (Inr r, s')"
  using assms by (auto simp: andThen_def split: prod.splits sum.splits)

lemma next_do_InrE:
  assumes "next_do m n s = (Inr r, s')"
  obtains x s1 where "m s = (Inr x, s1)" and "n s1 = (Inr r, s')"
  using assms by (auto simp: next_do_def andThen_def split: prod.splits sum.splits)

lemma outside_InrE:
  assumes "outside m s = (Inr x, s1)"
  obtains h1 where "m (host s) = (Inr x, h1)" and "s1 = s\<lparr>host := h1\<rparr>"
  using assms by (auto simp: outside_def split: prod.splits)


lemma andThen_assoc: "andThen (andThen m f) g = andThen m (\<lambda>x. andThen (f x) g)"
  by (auto simp: andThen_def fun_eq_iff split: prod.splits sum.splits)

lemma submitOtp1_try_split:
  "submitOtp1_try P jid otp session =
     next_do (submitOtp1_entry P otp session)
       (andThen (outside (url P (page session))) (\<lambda>currentUrl.
        andThen (outside (content P (page session))) (\<lambda>pageContent.
        next_do (outside (close P (browser session)))
       (next_do (sessions_delete jid)
       (succeed
          \<lparr>jobId = jid, status = completed, message = ''Job posted successfully!'',
           hipagesJobId = extract1 currentUrl pageContent,
           hipagesJobUrl = map_option (\<lambda>i. ''https://hipages.com.au/jobs/'' @ i)
                             (extract1 currentUrl pageContent),
           error = None\<rparr>)))))"
  unfolding submitOtp1_try_def submitOtp1_entry_def Let_def next_do_def andThen_assoc ..

lemma submitOtp2_try_split:
  "submitOtp2_try P jid otp session =
     next_do (submitOtp2_entry P jid otp session)
       (andThen (outside (url P (page session))) (\<lambda>currentUrl.
        next_do (outside (close P (browser session)))
       (next_do (sessions_delete jid)
       (succeed
          \<lparr>jobId = jid, status = completed, message = ''Job posted successfully!'',
           hipagesJobId = first_match job_slash_at currentUrl,
           hipagesJobUrl =
             (case first_match job_slash_at currentUrl of
                Some i \<Rightarrow>
                  if i \<noteq> []
                  then Some (''https://www.hipages.com.au/account/job/'' @ i @ ''/interested-businesses'')
                  else None
              | None \<Rightarrow> None),
           error = None\<rparr>))))"
  unfolding submitOtp2_try_def submitOtp2_entry_def Let_def next_do_def andThen_assoc ..

lemma submitOtp1_try_result:
  assumes "submitOtp1_try P jid otp session s = (Inr r, t)"
  shows "\<exists>s0 h1 h2 u c.
           submitOtp1_entry P otp session s = (Inr (), s0)
         \<and> url P (page session) (host s0) = (Inr u, h1)
         \<and> content P (page session) h1 = (Inr c, h2)
         \<and> r = \<lparr>jobId = jid, status = completed, message = ''Job posted successfully!'',
                 hipagesJobId = extract1 u c,
                 hipagesJobUrl = map_option (\<lambda>i. ''https://hipages.com.au/jobs/'' @ i) (extract1 u c),
                 error = None\<rparr>"
proof -
  from assms [unfolded submitOtp1_try_split]
  obtain x s0 where e: "submitOtp1_entry P otp session s = (Inr x, s0)"
    and f: "andThen (outside (url P (page session))) (\<lambda>currentUrl.
        andThen (outside (content P (page session))) (\<lambda>pageContent.
        next_do (outside (close P (browser session)))
       (next_do (sessions_delete jid)
       (succeed
          \<lparr>jobId = jid, status = completed, message = ''Job posted successfully!'',
           hipagesJobId = extract1 currentUrl pageContent,
           hipagesJobUrl = map_option (\<lambda>i. ''https://hipages.com.au/jobs/'' @ i)
                             (extract1 currentUrl pageContent),
           error = None\<rparr>)))) s0 = (Inr r, t)"
    by (rule next_do_InrE)
  from f obtain u s1 where u: "outside (url P (page session)) s0 = (Inr u, s1)"
    and g: "andThen (outside (content P (page session))) (\<lambda>pageContent.
        next_do (outside (close P (browser session)))
       (next_do (sessions_delete jid)
       (succeed
          \<lparr>jobId = jid, status = completed, message = ''Job posted successfully!'',
           hipagesJobId = extract1 u pageContent,
           hipagesJobUrl = map_option (\<lambda>i. ''https://hipages.com.au/jobs/'' @ i)
                             (extract1 u pageContent),
           error = None\<rparr>))) s1 = (Inr r, t)"
    by (rule andThen_InrE)
  from g obtain c s2 where c: "outside (content P (page session)) s1 = (Inr c, s2)"
    and k: "next_do (outside (close P (browser session)))
       (next_do (sessions_delete jid)
       (succeed
          \<lparr>jobId = jid, status = completed, message = ''Job posted successfully!'',
           hipagesJobId = extract1 u c,
           hipagesJobUrl = map_option (\<lambda>i. ''https://hipages.com.au/jobs/'' @ i) (extract1 u c),
           error = None\<rparr>)) s2 = (Inr r, t)"
    by (rule andThen_InrE)
  from u obtain h1 where u': "url P (page session) (host s0) = (Inr u, h1)" and s1: "s1 = s0\<lparr>host := h1\<rparr>"
    by (rule outside_InrE)
  from c obtain h2 where c': "content P (page session) (host s1) = (Inr c, h2)"
    by (rule outside_InrE)
  from k have r: "r = \<lparr>jobId = jid, status = completed, message = ''Job posted successfully!'',
           hipagesJobId = extract1 u c,
           hipagesJobUrl = map_option (\<lambda>i. ''https://hipages.com.au/jobs/'' @ i) (extract1 u c),
           error = None\<rparr>"
    by (elim next_do_InrE) (simp add: succeed_def)
  from e u' c' s1 r show ?thesis by auto
qed

lemma submitOtp2_try_result:
  assumes "submitOtp2_try P jid otp session s = (Inr r, t)"
  shows "\<exists>s0 h1 u.
           submitOtp2_entry P jid otp session s = (Inr (), s0)
         \<and> url P (page session) (host s0) = (Inr u, h1)
         \<and> r = \<lparr>jobId = jid, status = completed, message = ''Job posted successfully!'',
                 hipagesJobId = first_match job_slash_at u,
                 hipagesJobUrl =
                   (case first_match job_slash_at u of
                      Some i \<Rightarrow>
                        if i \<noteq> []
                        then Some (''https://www.hipages.com.au/account/job/'' @ i @ ''/interested-businesses'')
                        else None
                    | None \<Rightarrow> None),
                 error = None\<rparr>"
proof -
  from assms [unfolded submitOtp2_try_split]
  obtain x s0 where e: "submitOtp2_entry P jid otp session s = (Inr x, s0)"
    and f: "andThen (outside (url P (page session))) (\<lambda>currentUrl.
        next_do (outside (close P (browser session)))
       (next_do (sessions_delete jid)
       (succeed
          \<lparr>jobId = jid, status = completed, message = ''Job posted successfully!'',
           hipagesJobId = first_match job_slash_at currentUrl,
           hipagesJobUrl =
             (case first_match job_slash_at currentUrl of
                Some i \<Rightarrow>
                  if i \<noteq> []
                  then Some (''https://www.hipages.com.au/account/job/'' @ i @ ''/interested-businesses'')
                  else None
              | None \<Rightarrow> None),
           error = None\<rparr>))) s0 = (Inr r, t)"
    by (rule next_do_InrE)
  from f obtain u s1 where u: "outside (url P (page session)) s0 = (Inr u, s1)"
    and k: "next_do (outside (close P (browser session)))
       (next_do (sessions_delete jid)
       (succeed
          \<lparr>jobId = jid, status = completed, message = ''Job posted successfully!'',
           hipagesJobId = first_match job_slash_at u,
           hipagesJobUrl =
             (case first_match job_slash_at u of
                Some i \<Rightarrow>
                  if i \<noteq> []
                  then Some (''https://www.hipages.com.au/account/job/'' @ i @ ''/interested-businesses'')
                  else None
              | None \<Rightarrow> None),
           error = None\<rparr>)) s1 = (Inr r, t)"
    by (rule andThen_InrE)
  from u obtain h1 where u': "url P (page session) (host s0) = (Inr u, h1)"
    by (rule outside_InrE)
  from k have r: "r = \<lparr>jobId = jid, status = completed, message = ''Job posted successfully!'',
           hipagesJobId = first_match job_slash_at u,
           hipagesJobUrl =
             (case first_match job_slash_at u of
                Some i \<Rightarrow>
                  if i \<noteq> []
                  then Some (''https://www.hipages.com.au/account/job/'' @ i @ ''/interested-businesses'')
                  else None
              | None \<Rightarrow> None),
           error = None\<rparr>"
    by (elim next_do_InrE) (simp add: succeed_def)
  from e u' r show ?thesis by auto
qed

lemma digits1_nonempty: "digits1 t = Some d \<Longrightarrow> d \<noteq> []"
  by (auto simp: digits1_def Let_def split: if_splits)

lemma digits1_digits: "digits1 t = Some d \<Longrightarrow> c \<in> set d \<Longrightarrow> is_digit c"
  by (auto simp: digits1_def Let_def split: if_splits dest: set_takeWhileD)

lemma first_match_at: "first_match f t = Some r \<Longrightarrow> \<exists>k. f (drop k t) = Some r"
proof (induction t)
  case Nil
  then show ?case by auto
next
  case (Cons c cs)
  show ?case
  proof (cases "f (c # cs)")
    case None
    with Cons obtain k where "f (drop k cs) = Some r" by auto
    then have "f (drop (Suc k) (c # cs)) = Some r" by simp
    then show ?thesis by blast
  next
    case (Some a)
    with Cons.prems have "f (drop 0 (c # cs)) = Some r" by simp
    then show ?thesis by blast
  qed
qed

lemma job_slash_digits:
  assumes "first_match job_slash_at u = Some i"
  shows "i \<noteq> []" and "\<forall>c \<in> set i. is_digit c"
proof -
  from first_match_at [OF assms] obtain k where "job_slash_at (drop k u) = Some i" ..
  then obtain t where "digits1 t = Some i"
    by (auto simp: job_slash_at_def split: option.split_asm)
  then show "i \<noteq> []" and "\<forall>c \<in> set i. is_digit c"
    using digits1_nonempty digits1_digits by blast+
qed

lemma job_id_url_digits:
  assumes "job_id_url_at t = Some i"
  shows "\<exists>t'. digits1 t' = Some i"
  using assms unfolding job_id_url_at_def
  by (auto split: option.split_asm list.split_asm if_split_asm)

lemma job_id_content_digits:
  assumes "job_id_content_at t = Some i"
  shows "\<exists>t'. digits1 t' = Some i"
  using assms unfolding job_id_content_at_def Let_def
  by (auto split: option.split_asm list.split_asm if_split_asm)

lemma extract1_digits:
  assumes "extract1 u c = Some i"
  shows "i \<noteq> []" and "\<forall>c \<in> set i. is_digit c"
proof -
  from assms have "first_match job_id_url_at u = Some i \<or> first_match job_id_content_at c = Some i"
    by (auto simp: extract1_def split: option.split_asm)
  then obtain t where "job_id_url_at t = Some i \<or> job_id_content_at t = Some i"
    using first_match_at [of job_id_url_at u i] first_match_at [of job_id_content_at c i] by blast
  then obtain t' where "digits1 t' = Some i"
    using job_id_url_digits job_id_content_digits by blast
  then show "i \<noteq> []" and "\<forall>c \<in> set i. is_digit c"
    using digits1_nonempty digits1_digits by blast+
qed

text \<open>
  Claim C4, as amended. When the try block of \<^verbatim>\<open>submitOtp\<close> completes without a
  throw, \<^verbatim>\<open>submitOtp\<close> returns its result, and that result has the status
  \<open>completed\<close> and no error. Its result fields come from the address \<open>u\<close> that
  \<^verbatim>\<open>page.url()\<close> returns in the state the entry of the try block ends in (after
  the code was typed and the button clicked) and, in the first implementation only,
  from the content \<open>c\<close> that \<^verbatim>\<open>page.content()\<close> returns next. In the first
  implementation the identifier is what the URL pattern captures from \<open>u\<close>, or else
  what the content pattern captures from \<open>c\<close>; in the second it is what the pattern
  \<^verbatim>\<open>/job\/(\d+)/\<close> captures from \<open>u\<close>. With a match both the identifier (not
  empty) and the URL built from it are present; without a match both are absent, and
  the status is \<open>completed\<close> all the same. The two halves are independent: each has
  its own state, session and result.
\<close>

theorem submitOtp_completed_with_extraction:
  "(activeSessions s jid = Some session \<longrightarrow>
    submitOtp1_try P jid otp session s = (Inr r, t) \<longrightarrow>
      submitOtp1 P jid otp s = (Inr r, t) \<and> status r = completed \<and> error r = None
    \<and> (\<exists>s0 h1 h2 u c.
          submitOtp1_entry P otp session s = (Inr (), s0)
        \<and> url P (page session) (host s0) = (Inr u, h1)
        \<and> content P (page session) h1 = (Inr c, h2)
        \<and> (case first_match job_id_url_at u of
              Some i \<Rightarrow> i \<noteq> [] \<and> hipagesJobId r = Some i
                \<and> hipagesJobUrl r = Some (''https://hipages.com.au/jobs/'' @ i)
            | None \<Rightarrow>
               (case first_match job_id_content_at c of
                  Some i \<Rightarrow> i \<noteq> [] \<and> hipagesJobId r = Some i
                    \<and> hipagesJobUrl r = Some (''https://hipages.com.au/jobs/'' @ i)
                | None \<Rightarrow> hipagesJobId r = None \<and> hipagesJobUrl r = None))))
 \<and> (activeSessions s' jid = Some session' \<longrightarrow>
    submitOtp2_try P jid otp session' s' = (Inr r', t') \<longrightarrow>
      submitOtp2 P jid otp s' = (Inr r', t') \<and> status r' = completed \<and> error r' = None
    \<and> (\<exists>s0 h1 u.
          submitOtp2_entry P jid otp session' s' = (Inr (), s0)
        \<and> url P (page session') (host s0) = (Inr u, h1)
        \<and> (case first_match job_slash_at u of
              Some i \<Rightarrow> i \<noteq> [] \<and> hipagesJobId r' = Some i
                \<and> hipagesJobUrl r' =
                    Some (''https://www.hipages.com.au/account/job/'' @ i @ ''/interested-businesses'')
            | None \<Rightarrow> hipagesJobId r' = None \<and> hipagesJobUrl r' = None)))"
proof (intro conjI impI)
  assume a: "activeSessions s jid = Some session"
    and b: "submitOtp1_try P jid otp session s = (Inr r, t)"
  show "submitOtp1 P jid otp s = (Inr r, t)"
    using a b by (simp add: submitOtp1_def tryCatch_def)
  from submitOtp1_try_result [OF b] obtain s0 h1 h2 u c
    where e: "submitOtp1_entry P otp session s = (Inr (), s0)"
      and u: "url P (page session) (host s0) = (Inr u, h1)"
      and c: "content P (page session) h1 = (Inr c, h2)"
      and r: "r = \<lparr>jobId = jid, status = completed, message = ''Job posted successfully!'',
                 hipagesJobId = extract1 u c,
                 hipagesJobUrl = map_option (\<lambda>i. ''https://hipages.com.au/jobs/'' @ i) (extract1 u c),
                 error = None\<rparr>"
    by blast
  show "status r = completed" and "error r = None"
    by (simp_all add: r)
  have "case first_match job_id_url_at u of
              Some i \<Rightarrow> i \<noteq> [] \<and> hipagesJobId r = Some i
                \<and> hipagesJobUrl r = Some (''https://hipages.com.au/jobs/'' @ i)
            | None \<Rightarrow>
               (case first_match job_id_content_at c of
                  Some i \<Rightarrow> i \<noteq> [] \<and> hipagesJobId r = Some i
                    \<and> hipagesJobUrl r = Some (''https://hipages.com.au/jobs/'' @ i)
                | None \<Rightarrow> hipagesJobId r = None \<and> hipagesJobUrl r = None)"
    using extract1_digits(1) [of u c]
    by (auto simp: r extract1_def split: option.splits)
  with e u c show "\<exists>s0 h1 h2 u c.
          submitOtp1_entry P otp session s = (Inr (), s0)
        \<and> url P (page session) (host s0) = (Inr u, h1)
        \<and> content P (page session) h1 = (Inr c, h2)
        \<and> (case first_match job_id_url_at u of
              Some i \<Rightarrow> i \<noteq> [] \<and> hipagesJobId r = Some i
                \<and> hipagesJobUrl r = Some (''https://hipages.com.au/jobs/'' @ i)
            | None \<Rightarrow>
               (case first_match job_id_content_at c of
                  Some i \<Rightarrow> i \<noteq> [] \<and> hipagesJobId r = Some i
                    \<and> hipagesJobUrl r = Some (''https://hipages.com.au/jobs/'' @ i)
                | None \<Rightarrow> hipagesJobId r = None \<and> hipagesJobUrl r = None))"
    by blast
next
  assume a: "activeSessions s' jid = Some session'"
    and b: "submitOtp2_try P jid otp session' s' = (Inr r', t')"
  show "submitOtp2 P jid otp s' = (Inr r', t')"
    using a b by (simp add: submitOtp2_def tryCatch_def)
  from submitOtp2_try_result [OF b] obtain s0 h1 u
    where e: "submitOtp2_entry P jid otp session' s' = (Inr (), s0)"
      and u: "url P (page session') (host s0) = (Inr u, h1)"
      and r: "r' = \<lparr>jobId = jid, status = completed, message = ''Job posted successfully!'',
                 hipagesJobId = first_match job_slash_at u,
                 hipagesJobUrl =
                   (case first_match job_slash_at u of
                      Some i \<Rightarrow>
                        if i \<noteq> []
                        then Some (''https://www.hipages.com.au/account/job/'' @ i @ ''/interested-businesses'')
                        else None
                    | None \<Rightarrow> None),
                 error = None\<rparr>"
    by blast
  show "status r' = completed" and "error r' = None"
    by (simp_all add: r)
  have "case first_match job_slash_at u of
              Some i \<Rightarrow> i \<noteq> [] \<and> hipagesJobId r' = Some i
                \<and> hipagesJobUrl r' =
                    Some (''https://www.hipages.com.au/account/job/'' @ i @ ''/interested-businesses'')
            | None \<Rightarrow> hipagesJobId r' = None \<and> hipagesJobUrl r' = None"
    using job_slash_digits(1) [of u] by (cases "first_match job_slash_at u") (simp_all add: r)
  with e u show "\<exists>s0 h1 u.
          submitOtp2_entry P jid otp session' s' = (Inr (), s0)
        \<and> url P (page session') (host s0) = (Inr u, h1)
        \<and> (case first_match job_slash_at u of
              Some i \<Rightarrow> i \<noteq> [] \<and> hipagesJobId r' = Some i
                \<and> hipagesJobUrl r' =
                    Some (''https://www.hipages.com.au/account/job/'' @ i @ ''/interested-businesses'')
            | None \<Rightarrow> hipagesJobId r' = None \<and> hipagesJobUrl r' = None)"
    by blast
qed

theorem submitOtp_completed_with_extraction_witness:
  "activeSessions waiting1 ''job-1'' = Some session1_0
 \<and> activeSessions waiting2 ''job-1'' = Some session2_0
 \<and> fst (submitOtp1_try site_posted ''job-1'' ''123456'' session1_0 waiting1) = Inr posted1
 \<and> fst (submitOtp1 site_posted ''job-1'' ''123456'' waiting1) = Inr posted1
 \<and> fst (submitOtp1_try site_content_id ''job-1'' ''123456'' session1_0 waiting1) = Inr found1
 \<and> fst (submitOtp1 site_content_id ''job-1'' ''123456'' waiting1) = Inr found1
 \<and> fst (submitOtp1_try site_ok ''job-1'' ''123456'' session1_0 waiting1) = Inr bare
 \<and> fst (submitOtp1 site_ok ''job-1'' ''123456'' waiting1) = Inr bare
 \<and> fst (submitOtp2_try site_posted ''job-1'' ''123456'' session2_0 waiting2) = Inr posted2
 \<and> fst (submitOtp2 site_posted ''job-1'' ''123456'' waiting2) = Inr posted2
 \<and> fst (submitOtp2_try site_ok ''job-1'' ''123456'' session2_0 waiting2) = Inr bare
 \<and> fst (submitOtp2 site_ok ''job-1'' ''123456'' waiting2) = Inr bare"
proof -
  have a1: "activeSessions waiting1 ''job-1'' = Some session1_0"
    by (simp add: waiting1_def)
  have a2: "activeSessions waiting2 ''job-1'' = Some session2_0"
    by (simp add: waiting2_def)
  have p1: "fst (submitOtp1_try site_posted ''job-1'' ''123456'' session1_0 waiting1) = Inr posted1"
    by (simp add: run_all cong: prod.case_cong_weak)
  have c1: "fst (submitOtp1_try site_content_id ''job-1'' ''123456'' session1_0 waiting1) = Inr found1"
    by (simp add: run_all cong: prod.case_cong_weak)
  have n1: "fst (submitOtp1_try site_ok ''job-1'' ''123456'' session1_0 waiting1) = Inr bare"
    by (simp add: run_all cong: prod.case_cong_weak)
  have p2: "fst (submitOtp2_try site_posted ''job-1'' ''123456'' session2_0 waiting2) = Inr posted2"
    by (simp add: run_all cong: prod.case_cong_weak)
  have n2: "fst (submitOtp2_try site_ok ''job-1'' ''123456'' session2_0 waiting2) = Inr bare"
    by (simp add: run_all cong: prod.case_cong_weak)
  note first = submitOtp_completed_with_extraction [THEN conjunct1, rule_format, THEN conjunct1]
  note second = submitOtp_completed_with_extraction [THEN conjunct2, rule_format, THEN conjunct1]
  have "submitOtp1_try site_posted ''job-1'' ''123456'' session1_0 waiting1 =
          (Inr posted1, snd (submitOtp1_try site_posted ''job-1'' ''123456'' session1_0 waiting1))"
    using p1 by (simp add: prod_eq_iff)
  from first [OF a1 this]
  have "fst (submitOtp1 site_posted ''job-1'' ''123456'' waiting1) = Inr posted1"
    by simp
  moreover
  have "submitOtp1_try site_content_id ''job-1'' ''123456'' session1_0 waiting1 =
          (Inr found1, snd (submitOtp1_try site_content_id ''job-1'' ''123456'' session1_0 waiting1))"
    using c1 by (simp add: prod_eq_iff)
  from first [OF a1 this]
  have "fst (submitOtp1 site_content_id ''job-1'' ''123456'' waiting1) = Inr found1"
    by simp
  moreover
  have "submitOtp1_try site_ok ''job-1'' ''123456'' session1_0 waiting1 =
          (Inr bare, snd (submitOtp1_try site_ok ''job-1'' ''123456'' session1_0 waiting1))"
    using n1 by (simp add: prod_eq_iff)
  from first [OF a1 this]
  have "fst (submitOtp1 site_ok ''job-1'' ''123456'' waiting1) = Inr bare"
    by simp
  moreover
  have "submitOtp2_try site_posted ''job-1'' ''123456'' session2_0 waiting2 =
          (Inr posted2, snd (submitOtp2_try site_posted ''job-1'' ''123456'' session2_0 waiting2))"
    using p2 by (simp add: prod_eq_iff)
  from second [OF a2 this]
  have "fst (submitOtp2 site_posted ''job-1'' ''123456'' waiting2) = Inr posted2"
    by simp
  moreover
  have "submitOtp2_try site_ok ''job-1'' ''123456'' session2_0 waiting2 =
          (Inr bare, snd (submitOtp2_try site_ok ''job-1'' ''123456'' session2_0 waiting2))"
    using n2 by (simp add: prod_eq_iff)
  from second [OF a2 this]
  have "fst (submitOtp2 site_ok ''job-1'' ''123456'' waiting2) = Inr bare"
    by simp
  ultimately show ?thesis
    using a1 a2 p1 c1 n1 p2 n2 by simp
qed

text \<open>
  Claim C4 as stated fails on the second implementation (lines 540-542), which never
  reads the page content. On a site whose address matches no pattern and whose
  content holds the identifier, it returns \<open>completed\<close> with both result fields
  absent, where the first implementation returns the identifier.
\<close>

theorem submitOtp2_ignores_page_content:
  "fst (content site_content_id (Page 1)
          (host (snd (submitOtp2_entry site_content_id ''job-1'' ''123456'' session2_0 waiting2)))) =
     Inr ''<p>jobId: 31337</p>''
 \<and> first_match job_id_content_at ''<p>jobId: 31337</p>'' = Some ''31337''
 \<and> fst (submitOtp2 site_content_id ''job-1'' ''123456'' waiting2) = Inr bare
 \<and> hipagesJobId bare = None \<and> hipagesJobUrl bare = None
 \<and> fst (submitOtp1 site_content_id ''job-1'' ''123456'' waiting1) = Inr found1
 \<and> hipagesJobId found1 = Some ''31337''"
  by (simp add: run_all submitOtp2_entry_def cong: prod.case_cong_weak)
section \<open>The question-answering stage\<close>

lemma cam_succeed: "calls_at_most Q 0 (succeed x)"
  by (simp add: calls_at_most_def succeed_def)

lemma cam_perform: "calls_at_most Q (if Q c then 1 else 0) (perform c f)"
  by (auto simp: calls_at_most_def perform_def split: prod.splits)

lemma cam_mono: "calls_at_most Q k m \<Longrightarrow> k \<le> k' \<Longrightarrow> calls_at_most Q k' m"
  unfolding calls_at_most_def by (meson le_trans)

lemma cam_andThen:
  assumes "calls_at_most Q k1 m" and "\<And>x. calls_at_most Q k2 (f x)"
  shows "calls_at_most Q (k1 + k2) (andThen m f)"
  unfolding calls_at_most_def
proof
  fix h
  obtain r h1 where m: "m h = (r, h1)" by (cases "m h")
  from assms(1) obtain n1 where n1: "trace h1 = trace h @ n1" "length (filter Q n1) \<le> k1"
    unfolding calls_at_most_def using m by (metis snd_conv)
  show "\<exists>new. trace (snd (andThen m f h)) = trace h @ new \<and> length (filter Q new) \<le> k1 + k2"
  proof (cases r)
    case (Inl e)
    with m n1 show ?thesis by (auto simp: andThen_def)
  next
    case (Inr x)
    from assms(2) [of x] obtain n2 where "trace (snd (f x h1)) = trace h1 @ n2" "length (filter Q n2) \<le> k2"
      unfolding calls_at_most_def by blast
    with Inr m n1 show ?thesis
      by (intro exI [of _ "n1 @ n2"]) (simp add: andThen_def)
  qed
qed

lemma cam_next_do:
  "calls_at_most Q k1 m \<Longrightarrow> calls_at_most Q k2 n \<Longrightarrow> calls_at_most Q (k1 + k2) (next_do m n)"
  unfolding next_do_def by (rule cam_andThen)

lemma cam_swallow: "calls_at_most Q k m \<Longrightarrow> calls_at_most Q k (swallow m)"
  unfolding calls_at_most_def swallow_def tryCatch_def succeed_def
  by (auto split: prod.splits sum.splits) (metis snd_conv)+

lemma cam_forEach:
  assumes "\<And>x. calls_at_most Q 0 (body x)"
  shows "calls_at_most Q 0 (forEach xs body)"
proof (induction xs)
  case Nil
  show ?case by (simp add: cam_succeed)
next
  case (Cons x xs)
  have "calls_at_most Q (0 + 0) (next_do (body x) (forEach xs body))"
    by (rule cam_next_do [OF assms Cons])
  then show ?case by simp
qed

lemma cam_option:
  "calls_at_most Q k m \<Longrightarrow> (\<And>v. calls_at_most Q k (f v)) \<Longrightarrow>
   calls_at_most Q k (case v of None \<Rightarrow> m | Some x \<Rightarrow> f x)"
  by (cases v) simp_all

lemma cam_list:
  "calls_at_most Q k m \<Longrightarrow> (\<And>x xs. calls_at_most Q k (f x xs)) \<Longrightarrow>
   calls_at_most Q k (case v of [] \<Rightarrow> m | x # xs \<Rightarrow> f x xs)"
  by (cases v) simp_all

lemma cam_if:
  "calls_at_most Q k m \<Longrightarrow> calls_at_most Q k n \<Longrightarrow> calls_at_most Q k (if b then m else n)"
  by simp

lemma cam_zero: "calls_at_most Q 0 m \<Longrightarrow> calls_at_most Q k m"
  by (erule cam_mono) simp

text \<open>Of the capabilities, only a query can be the query for a text area.\<close>

lemma cam_caps:
  "calls_at_most (\<lambda>c. c = Query pg ''textarea'') 0 (delay P ms)"
  "calls_at_most (\<lambda>c. c = Query pg ''textarea'') 0 (queryAll P pg' sel)"
  "calls_at_most (\<lambda>c. c = Query pg ''textarea'') 0 (textContent P pg' el)"
  "calls_at_most (\<lambda>c. c = Query pg ''textarea'') 0 (click P el n)"
  "calls_at_most (\<lambda>c. c = Query pg ''textarea'') 1 (query P pg' sel)"
  unfolding delay_def queryAll_def textContent_def click_def query_def
  by (rule cam_mono [OF cam_perform], simp)+

lemma cam_find_in_buttons:
  "calls_at_most (\<lambda>c. c = Query pg ''textarea'') 0 (find_in_buttons P pg' t buttons)"
proof (induction buttons)
  case Nil
  show ?case by (simp add: cam_succeed)
next
  case (Cons b bs)
  have "calls_at_most (\<lambda>c. c = Query pg ''textarea'') (0 + 0) (find_in_buttons P pg' t (b # bs))"
    unfolding find_in_buttons.simps Let_def
    by (intro cam_andThen cam_caps cam_if cam_mono [OF cam_next_do [OF cam_caps(4) cam_succeed]] Cons)
       simp
  then show ?case by simp
qed

lemma cam_findAndClickButton:
  "calls_at_most (\<lambda>c. c = Query pg ''textarea'') 0 (findAndClickButton P pg' texts)"
proof (induction texts)
  case Nil
  show ?case by (simp add: cam_succeed)
next
  case (Cons t ts)
  have "calls_at_most (\<lambda>c. c = Query pg ''textarea'') (0 + (0 + 0)) (findAndClickButton P pg' (t # ts))"
    unfolding findAndClickButton.simps
    by (intro cam_andThen cam_caps cam_find_in_buttons cam_if cam_succeed Cons)
  then show ?case by simp
qed

lemma cam_answer_loop:
  "calls_at_most (\<lambda>c. c = Query pg ''textarea'') n (answer_loop P pg n)"
proof (induction n)
  case 0
  show ?case by (simp add: cam_succeed)
next
  case (Suc n)
  have "calls_at_most (\<lambda>c. c = Query pg ''textarea'') (1 + (0 + (0 + (0 + n)))) (answer_loop P pg (Suc n))"
    unfolding answer_loop.simps
    apply (rule cam_andThen [OF cam_caps(5)])
    apply (rule cam_option)
     apply (rule cam_andThen [OF cam_caps(2)])
     apply (rule cam_next_do)
      apply (rule cam_list [OF cam_succeed])
      apply (rule cam_mono [OF cam_next_do [OF cam_caps(4) cam_caps(1)]], simp)
     apply (rule cam_andThen [OF cam_findAndClickButton])
     apply (rule cam_if)
      apply (rule cam_mono [OF cam_next_do [OF cam_caps(1) Suc]], simp)
     apply (rule cam_zero [OF cam_succeed])
    apply (rule cam_zero [OF cam_succeed])
    done
  then show ?case by simp
qed

lemma cam_answerFormQuestions2:
  "calls_at_most (\<lambda>c. c = Query pg ''textarea'') 10 (answerFormQuestions2 P pg)"
  unfolding answerFormQuestions2_def
  by (rule cam_mono [OF cam_next_do [OF cam_caps(1) cam_answer_loop]]) simp

lemma cam_answerFormQuestions1:
  "calls_at_most (\<lambda>c. c = Query pg ''textarea'') 0 (answerFormQuestions1 P pg job)"
proof -
  have "calls_at_most (\<lambda>c. c = Query pg ''textarea'') (0 + (0 + (0 + (0 + 0)))) (answerFormQuestions1 P pg job)"
    unfolding answerFormQuestions1_def
    by (intro cam_next_do cam_andThen cam_caps cam_forEach cam_swallow
          cam_mono [OF cam_next_do [OF cam_caps(4) cam_caps(1)]]) simp_all
  then show ?thesis by simp
qed

text \<open>
  The loop of the second implementation is the bounded loop of the specification,
  run on its iteration.
\<close>

lemma andThen_succeed: "andThen (succeed x) f = f x"
  by (simp add: andThen_def succeed_def)

lemma andThen_if: "andThen (if b then m else n) f = (if b then andThen m f else andThen n f)"
  by simp

lemma answer_loop_refines:
  "answer_loop P pg n = spec_bounded_loop n (spec_iteration P pg)"
proof (induction n)
  case 0
  show ?case by simp
next
  case (Suc n)
  have "spec_bounded_loop (Suc n) (spec_iteration P pg) =
     andThen (query P pg ''textarea'') (\<lambda>textarea.
       case textarea of
         Some el \<Rightarrow> succeed ()
       | None \<Rightarrow>
           andThen (queryAll P pg ''input[type=\"radio\"]:not(:checked)'') (\<lambda>radioButtons.
           next_do (case radioButtons of
                      r # others \<Rightarrow> next_do (click P r 1) (delay P 500)
                    | [] \<Rightarrow> succeed ())
          (andThen (findAndClickButton P pg [''next'', ''continue'']) (\<lambda>clicked.
             if clicked then next_do (delay P 1000) (spec_bounded_loop n (spec_iteration P pg))
             else succeed ()))))"
    unfolding spec_bounded_loop.simps spec_iteration_def spec_pick_choice_def next_do_def
      andThen_assoc andThen_if andThen_succeed
    by (rule arg_cong [where f = "andThen (query P pg ''textarea'')"])
       (auto simp: fun_eq_iff andThen_succeed split: option.splits list.splits
             intro!: arg_cong2 [where f = andThen])
  then show ?case
    by (simp only: answer_loop.simps Suc)
qed

lemma cam_spec_pick_choice:
  "calls_at_most (\<lambda>c. c = Query pg ''textarea'') 0 (spec_pick_choice P pg')"
proof -
  have "calls_at_most (\<lambda>c. c = Query pg ''textarea'') (0 + 0) (spec_pick_choice P pg')"
    unfolding spec_pick_choice_def
    by (intro cam_andThen cam_caps cam_list cam_succeed
          cam_mono [OF cam_next_do [OF cam_caps(4) cam_caps(1)]]) simp
  then show ?thesis by simp
qed

lemma iteration_calls:
  "\<exists>rest. trace (snd (spec_iteration P pg h)) = trace h @ Query pg ''textarea'' # rest
        \<and> filter (\<lambda>c. c = Query pg ''textarea'') rest = []"
proof -
  let ?k = "\<lambda>textArea :: Element option.
       if textArea \<noteq> None then succeed False
       else next_do (spec_pick_choice P pg)
           (andThen (findAndClickButton P pg [''next'', ''continue'']) (\<lambda>found.
              if found then next_do (delay P 1000) (succeed True) else succeed False))"
  have k: "calls_at_most (\<lambda>c. c = Query pg ''textarea'') 0 (?k ta)" for ta
  proof -
    have "calls_at_most (\<lambda>c. c = Query pg ''textarea'') (0 + (0 + 0)) (?k ta)"
      by (intro cam_if cam_zero [OF cam_succeed] cam_next_do cam_andThen cam_spec_pick_choice
            cam_findAndClickButton cam_mono [OF cam_next_do [OF cam_caps(1) cam_succeed]]) simp
    then show ?thesis by simp
  qed
  obtain r h1 where q: "query P pg ''textarea'' h = (r, h1)"
    by (cases "query P pg ''textarea'' h")
  then have t1: "trace h1 = trace h @ [Query pg ''textarea'']"
    using perform_frame [of _ _ h r h1] by (simp add: query_def)
  show ?thesis
  proof (cases r)
    case (Inl e)
    with q t1 show ?thesis
      by (simp add: spec_iteration_def run_simps)
  next
    case (Inr ta)
    from k [of ta] obtain new where "trace (snd (?k ta h1)) = trace h1 @ new"
      and "length (filter (\<lambda>c. c = Query pg ''textarea'') new) \<le> 0"
      unfolding calls_at_most_def by blast
    with q t1 Inr show ?thesis
      by (simp add: spec_iteration_def run_simps(3))
  qed
qed

lemma loop_never_stopped:
  assumes "\<forall>h. \<exists>h'. spec_iteration P pg h = (Inr True, h')"
  shows "\<exists>new. trace (snd (spec_bounded_loop n (spec_iteration P pg) h)) = trace h @ new
          \<and> length (filter (\<lambda>c. c = Query pg ''textarea'') new) = n"
proof (induction n arbitrary: h)
  case 0
  show ?case by (simp add: run_simps)
next
  case (Suc n)
  from assms obtain h' where s: "spec_iteration P pg h = (Inr True, h')" by blast
  from iteration_calls [of P pg h] s obtain rest
    where r: "trace h' = trace h @ Query pg ''textarea'' # rest"
      and z: "filter (\<lambda>c. c = Query pg ''textarea'') rest = []"
    by auto
  from Suc [of h'] obtain new
    where n: "trace (snd (spec_bounded_loop n (spec_iteration P pg) h')) = trace h' @ new"
      and c: "length (filter (\<lambda>c. c = Query pg ''textarea'') new) = n"
    by blast
  have "spec_bounded_loop (Suc n) (spec_iteration P pg) h =
          spec_bounded_loop n (spec_iteration P pg) h'"
    by (simp add: run_simps(3) s)
  with r z n c show ?case
    by (intro exI [of _ "Query pg ''textarea'' # rest @ new"]) simp
qed

lemma delay_run: "delay P ms h = (Inr (), snd (delay P ms h))"
  by (simp add: delay_def perform_def)

lemma delay_trace: "trace (snd (delay P ms h)) = trace h @ [Delay ms]"
  by (simp add: delay_def perform_def)

text \<open>
  Claim C9, as amended: the second implementation (lines 639-660). After a pause,
  the stage is the loop of the specification with the bound ten: an iteration stops
  the loop when it finds a free-text area; otherwise it clicks the first unselected
  choice-control, if there is one, looks for a "next" or "continue" control and
  clicks it, and stops the loop when none was found. Every iteration starts with
  the query for the free-text area, so a run makes at most ten of them, and exactly
  ten on a page where no iteration stops the loop. When the first query finds a
  free-text area the stage ends there; when it finds none and no "next" control is
  found after the choice was picked, the stage ends there.
\<close>

theorem answerFormQuestions2_loop:
  \<open>answerFormQuestions2 P pg = next_do (delay P 1000) (spec_bounded_loop 10 (spec_iteration P pg))
   \<and> (\<exists>new. trace (snd (answerFormQuestions2 P pg h)) = trace h @ new
         \<and> length (filter (\<lambda>c. c = Query pg ''textarea'') new) \<le> 10
         \<and> ((\<forall>h. \<exists>h'. spec_iteration P pg h = (Inr True, h')) \<longrightarrow>
              length (filter (\<lambda>c. c = Query pg ''textarea'') new) = 10))
   \<and> (query P pg ''textarea'' (snd (delay P 1000 h)) = (Inr (Some el), h1) \<longrightarrow>
        answerFormQuestions2 P pg h = (Inr (), h1))
   \<and> (query P pg ''textarea'' (snd (delay P 1000 h)) = (Inr None, h1) \<longrightarrow>
      spec_pick_choice P pg h1 = (Inr (), h2) \<longrightarrow>
      findAndClickButton P pg [''next'', ''continue''] h2 = (Inr False, h3) \<longrightarrow>
        answerFormQuestions2 P pg h = (Inr (), h3))\<close>
proof (intro conjI impI)
  show ref: "answerFormQuestions2 P pg =
      next_do (delay P 1000) (spec_bounded_loop 10 (spec_iteration P pg))"
    by (simp only: answerFormQuestions2_def answer_loop_refines)
  let ?h0 = "snd (delay P 1000 h)"
  have run: "answerFormQuestions2 P pg h = spec_bounded_loop (Suc 9) (spec_iteration P pg) ?h0"
    unfolding ref by (subst run_simps(4), subst delay_run) (simp add: numeral_eq_Suc)
  from cam_answerFormQuestions2 [of pg P] obtain new
    where n: "trace (snd (answerFormQuestions2 P pg h)) = trace h @ new"
      and c: "length (filter (\<lambda>c. c = Query pg ''textarea'') new) \<le> 10"
    unfolding calls_at_most_def by blast
  have "length (filter (\<lambda>c. c = Query pg ''textarea'') new) = 10"
    if never: "\<forall>h. \<exists>h'. spec_iteration P pg h = (Inr True, h')"
  proof -
    from loop_never_stopped [OF never, of "Suc 9" ?h0] obtain new'
      where "trace (snd (spec_bounded_loop (Suc 9) (spec_iteration P pg) ?h0)) = trace ?h0 @ new'"
        and "length (filter (\<lambda>c. c = Query pg ''textarea'') new') = Suc 9"
      by blast
    with n run have "new = Delay 1000 # new'"
      by (simp add: delay_trace)
    with \<open>length (filter (\<lambda>c. c = Query pg ''textarea'') new') = Suc 9\<close> show ?thesis
      by simp
  qed
  with n c show "\<exists>new. trace (snd (answerFormQuestions2 P pg h)) = trace h @ new
         \<and> length (filter (\<lambda>c. c = Query pg ''textarea'') new) \<le> 10
         \<and> ((\<forall>h. \<exists>h'. spec_iteration P pg h = (Inr True, h')) \<longrightarrow>
              length (filter (\<lambda>c. c = Query pg ''textarea'') new) = 10)"
    by blast
  {
    assume "query P pg ''textarea'' ?h0 = (Inr (Some el), h1)"
    then have "spec_iteration P pg ?h0 = (Inr False, h1)"
      by (simp add: spec_iteration_def run_simps)
    then show "answerFormQuestions2 P pg h = (Inr (), h1)"
      unfolding run by (simp add: run_simps(1,3) numeral_eq_Suc)
  }
  {
    assume "query P pg ''textarea'' ?h0 = (Inr None, h1)"
      and "spec_pick_choice P pg h1 = (Inr (), h2)"
      and "findAndClickButton P pg [''next'', ''continue''] h2 = (Inr False, h3)"
    then have "spec_iteration P pg ?h0 = (Inr False, h3)"
      unfolding spec_iteration_def by (simp add: run_simps(1,3,4))
    then show "answerFormQuestions2 P pg h = (Inr (), h3)"
      unfolding run by (simp add: run_simps(1,3) numeral_eq_Suc)
  }
qed

lemma loop_unrolled:
  "spec_bounded_loop (numeral k) step =
     andThen step (\<lambda>go_on. if go_on then spec_bounded_loop (pred_numeral k) step else succeed ())"
  "spec_bounded_loop 1 step =
     andThen step (\<lambda>go_on. if go_on then spec_bounded_loop 0 step else succeed ())"
  by (simp_all add: numeral_eq_Suc)

theorem answerFormQuestions2_loop_witness:
  \<open>(\<forall>h. \<exists>h'. spec_iteration site_wizard (Page 1) h = (Inr True, h'))
   \<and> length (filter (\<lambda>c. c = Query (Page 1) ''textarea'')
        (trace (snd (answerFormQuestions2 site_wizard (Page 1) host0)))) = 10
   \<and> length (filter (\<lambda>c. c = Click (Element 5) 1)
        (trace (snd (answerFormQuestions2 site_wizard (Page 1) host0)))) = 10
   \<and> length (filter (\<lambda>c. c = Click (Element 9) 1)
        (trace (snd (answerFormQuestions2 site_wizard (Page 1) host0)))) = 10
   \<and> answerFormQuestions2 site_form (Page 1) host0 =
        (Inr (), \<lparr>world = 1000, trace = [Delay 1000, Query (Page 1) ''textarea''], files = Map.empty\<rparr>)
   \<and> answerFormQuestions2 site_last_question (Page 1) host0 =
        (Inr (), \<lparr>world = 1500,
                  trace = [Delay 1000, Query (Page 1) ''textarea'',
                           QueryAll (Page 1) ''input[type="radio"]:not(:checked)'',
                           Click (Element 5) 1, Delay 500,
                           QueryAll (Page 1) ''button, input[type="submit"], a'',
                           QueryAll (Page 1) ''button, input[type="submit"], a''],
                  files = Map.empty\<rparr>)
   \<and> answerFormQuestions2 site_two_questions (Page 1) host0 =
        (Inr (), \<lparr>world = 2500,
                  trace = [Delay 1000, Query (Page 1) ''textarea'',
                           QueryAll (Page 1) ''input[type="radio"]:not(:checked)'',
                           Click (Element 5) 1, Delay 500,
                           QueryAll (Page 1) ''button, input[type="submit"], a'',
                           TextContent (Page 1) (Element 8), TextContent (Page 1) (Element 9),
                           Click (Element 9) 1, Delay 1000,
                           Query (Page 1) ''textarea''],
                  files = Map.empty\<rparr>)\<close>
proof -
  let ?h0 = "\<lparr>world = 1000::nat, trace = [Delay 1000], files = Map.empty\<rparr>"
  let ?h1 = "\<lparr>world = 1000::nat, trace = [Delay 1000, Query (Page 1) ''textarea''], files = Map.empty\<rparr>"
  let ?h2 = \<open>\<lparr>world = 1500::nat,
              trace = [Delay 1000, Query (Page 1) ''textarea'',
                       QueryAll (Page 1) ''input[type="radio"]:not(:checked)'',
                       Click (Element 5) 1, Delay 500],
              files = Map.empty\<rparr>\<close>
  let ?h3 = \<open>\<lparr>world = 1500::nat,
              trace = [Delay 1000, Query (Page 1) ''textarea'',
                       QueryAll (Page 1) ''input[type="radio"]:not(:checked)'',
                       Click (Element 5) 1, Delay 500,
                       QueryAll (Page 1) ''button, input[type="submit"], a'',
                       QueryAll (Page 1) ''button, input[type="submit"], a''],
              files = Map.empty\<rparr>\<close>
  have step: \<open>spec_iteration site_wizard (Page 1) \<lparr>world = w, trace = t, files = f\<rparr> =
      (Inr True,
       \<lparr>world = w + 500 + 1000,
        trace = t @ [Query (Page 1) ''textarea'',
                     QueryAll (Page 1) ''input[type="radio"]:not(:checked)'',
                     Click (Element 5) 1, Delay 500,
                     QueryAll (Page 1) ''button, input[type="submit"], a'',
                     TextContent (Page 1) (Element 8), TextContent (Page 1) (Element 9),
                     Click (Element 9) 1, Delay 1000],
        files = f\<rparr>)\<close> for w t f
    by (simp add: spec_iteration_def spec_pick_choice_def run_all cong: prod.case_cong_weak)
  have d0: "delay site_wizard 1000 host0 =
      (Inr (), \<lparr>world = 1000, trace = [Delay 1000], files = Map.empty\<rparr>)"
    by (simp add: run_all cong: prod.case_cong_weak)
  have never: "\<forall>h. \<exists>h'. spec_iteration site_wizard (Page 1) h = (Inr True, h')"
  proof
    fix h :: "nat host"
    show "\<exists>h'. spec_iteration site_wizard (Page 1) h = (Inr True, h')"
      by (cases h) (simp only: step; blast)
  qed
  note inst = answerFormQuestions2_loop [of site_wizard "Page 1" host0]
  from inst never
  obtain new where "trace (snd (answerFormQuestions2 site_wizard (Page 1) host0)) = trace host0 @ new"
    and "length (filter (\<lambda>c. c = Query (Page 1) ''textarea'') new) = 10"
    by blast
  then have ten: "length (filter (\<lambda>c. c = Query (Page 1) ''textarea'')
        (trace (snd (answerFormQuestions2 site_wizard (Page 1) host0)))) = 10"
    by (simp add: host0_def)
  have clicks: "length (filter (\<lambda>c. c = Click (Element 5) 1)
        (trace (snd (answerFormQuestions2 site_wizard (Page 1) host0)))) = 10"
      "length (filter (\<lambda>c. c = Click (Element 9) 1)
        (trace (snd (answerFormQuestions2 site_wizard (Page 1) host0)))) = 10"
    unfolding inst [THEN conjunct1]
    by (simp_all add: loop_unrolled run_simps(1,3,4) step d0 del: One_nat_def)
  have d1: "snd (delay site_form 1000 host0) = ?h0"
    and d2: "snd (delay site_last_question 1000 host0) = ?h0"
    by (simp_all add: run_all cong: prod.case_cong_weak)
  have a: "query site_form (Page 1) ''textarea'' ?h0 = (Inr (Some (Element 3)), ?h1)"
    by (simp add: run_all cong: prod.case_cong_weak)
  from answerFormQuestions2_loop [of site_form "Page 1" host0 "Element 3" ?h1] a
  have form: "answerFormQuestions2 site_form (Page 1) host0 = (Inr (), ?h1)"
    unfolding d1 by blast
  have b: "query site_last_question (Page 1) ''textarea'' ?h0 = (Inr None, ?h1)"
    by (simp add: run_all cong: prod.case_cong_weak)
  have c: "spec_pick_choice site_last_question (Page 1) ?h1 = (Inr (), ?h2)"
    by (simp add: spec_pick_choice_def run_all cong: prod.case_cong_weak)
  have e: "findAndClickButton site_last_question (Page 1) [''next'', ''continue''] ?h2 = (Inr False, ?h3)"
    by (simp add: run_all cong: prod.case_cong_weak)
  from answerFormQuestions2_loop [of site_last_question "Page 1" host0 _ ?h1 ?h2 ?h3] b c e
  have last: "answerFormQuestions2 site_last_question (Page 1) host0 = (Inr (), ?h3)"
    unfolding d2 by blast
  have two: \<open>answerFormQuestions2 site_two_questions (Page 1) host0 =
        (Inr (), \<lparr>world = 2500,
                  trace = [Delay 1000, Query (Page 1) ''textarea'',
                           QueryAll (Page 1) ''input[type="radio"]:not(:checked)'',
                           Click (Element 5) 1, Delay 500,
                           QueryAll (Page 1) ''button, input[type="submit"], a'',
                           TextContent (Page 1) (Element 8), TextContent (Page 1) (Element 9),
                           Click (Element 9) 1, Delay 1000,
                           Query (Page 1) ''textarea''],
                  files = Map.empty\<rparr>)\<close>
    by (simp add: run_all numeral_eq_Suc cong: prod.case_cong_weak)
  from never ten clicks form last two show ?thesis by blast
qed

text \<open>
  Claim C9 as stated fails on the first implementation (lines 277-295), which has
  no such loop. On a page whose free-text area is there from the start, the stage
  does not stop: it never looks for the text area and clicks the choice-control.
\<close>

theorem answerFormQuestions1_ignores_text_area:
  \<open>fst (query site_form (Page 1) ''textarea'' (snd (delay site_form 1000 host0))) =
     Inr (Some (Element 3))
   \<and> trace (snd (answerFormQuestions1 site_form (Page 1) job0 host0)) =
     [Delay 1000,
      QueryAll (Page 1) ''input[type="radio"]'',
      Click (Element 5) 1,
      Delay 300,
      QueryAll (Page 1) ''button:has-text("Continue"), button:has-text("Next")'']
   \<and> trace (snd (answerFormQuestions2 site_form (Page 1) host0)) =
     [Delay 1000, Query (Page 1) ''textarea'']\<close>
  by (simp add: run_all numeral_eq_Suc cong: prod.case_cong_weak)
end
